theory Spec2Isabelle
  imports Main "HOL-Library.Word"
begin

unbundle bit_operations_syntax

section \<open>Reserve configuration word\<close>

text \<open>
  \<^verbatim>\<open>check-pool-config.ts\<close> (lines 69-72) and \<^verbatim>\<open>list-pool-reserves.ts\<close> (lines 96-98)
  decode two flags of \<^verbatim>\<open>reserveData.configuration.data\<close>, a \<^verbatim>\<open>uint256\<close> returned by the pool:
  \<^verbatim>\<open>
    const isActive = configData.shr(56).and(1).eq(1);   // Bit 56
    const isFrozen = configData.shr(57).and(1).eq(1);   // Bit 57
  \<close>
\<close>

type_synonym uint256 = "256 word"

definition isActive :: "uint256 \<Rightarrow> bool" where
  "isActive configData = (drop_bit 56 configData AND 1 = 1)"

definition isFrozen :: "uint256 \<Rightarrow> bool" where
  "isFrozen configData = (drop_bit 57 configData AND 1 = 1)"

record ReserveStatus =
  rsActive :: bool
  rsFrozen :: bool

definition decodeStatus :: "uint256 \<Rightarrow> ReserveStatus" where
  "decodeStatus configData = \<lparr> rsActive = isActive configData, rsFrozen = isFrozen configData \<rparr>"

section \<open>The environment and JavaScript's truthiness\<close>

text \<open>
  \<^verbatim>\<open>process.env\<close> maps variable names to strings; a variable that is not set reads as
  \<^verbatim>\<open>undefined\<close>, here \<open>None\<close>. The scripts only ever use these values through \<^verbatim>\<open>||\<close> and
  \<^verbatim>\<open>!\<close>, where \<^verbatim>\<open>undefined\<close> and the empty string are falsy and every other string is truthy.
\<close>

type_synonym env = "string \<rightharpoonup> string"

definition truthy :: "string option \<Rightarrow> bool" where
  "truthy v = (case v of None \<Rightarrow> False | Some s \<Rightarrow> s \<noteq> [])"

definition js_or :: "string option \<Rightarrow> string option \<Rightarrow> string option" where
  \<comment> \<open>\<^verbatim>\<open>a || b\<close> on two possibly undefined strings\<close>
  "js_or a b = (if truthy a then a else b)"

definition or_default :: "string option \<Rightarrow> string \<Rightarrow> string" where
  \<comment> \<open>\<^verbatim>\<open>a || 'literal'\<close>\<close>
  "or_default a d = (case a of None \<Rightarrow> d | Some s \<Rightarrow> if s = [] then d else s)"

text \<open>
  A JavaScript \<^verbatim>\<open>number\<close> obtained from \<^verbatim>\<open>parseInt\<close> is an integer or \<^verbatim>\<open>NaN\<close> (\<open>None\<close>).
\<close>

type_synonym number = "int option"

text \<open>
  Library functions the scripts call, which are not code of this repository, are parameters
  of the model: JavaScript's \<^verbatim>\<open>parseInt\<close>, and from ethers \<^verbatim>\<open>parseUnits\<close> (which throws on a
  malformed amount) and the check of the \<^verbatim>\<open>decimals\<close> argument that \<^verbatim>\<open>formatUnits\<close> makes before
  formatting a balance (it throws when the argument is not a valid number of decimals; the
  value being formatted is always a \<^verbatim>\<open>BigNumber\<close> read from the chain).
\<close>

record lib =
  parseInt :: "string \<Rightarrow> number"
  parseUnits :: "string \<Rightarrow> number \<Rightarrow> string + int"
  formatUnits :: "number \<Rightarrow> string + unit"

section \<open>Network classification and configuration loading\<close>

text \<open>
  The same function opens every script (\<^verbatim>\<open>supply-to-pool-configurable.ts\<close> lines 8-11,
  \<^verbatim>\<open>check-balance.ts\<close> lines 6-9):
  \<^verbatim>\<open>
    function isLocalNetwork(): boolean {
      const network = process.env.NETWORK || 'hardhat';
      return network === 'hardhat' || network === 'localhost';
    }
  \<close>
\<close>

definition isLocalNetwork :: "env \<Rightarrow> bool" where
  "isLocalNetwork env =
     (let network = or_default (env ''NETWORK'') ''hardhat''
      in network = ''hardhat'' \<or> network = ''localhost'')"

text \<open>
  \<^verbatim>\<open>loadConfig\<close> is repeated, with the same text up to the amount field, in the supply, borrow,
  repay and withdraw scripts. The model has one function with the operation as a parameter;
  the operation selects the amount variable and its default (\<^verbatim>\<open>TOKEN_SUPPLY_AMOUNT || '100'\<close>,
  \<^verbatim>\<open>TOKEN_BORROW_AMOUNT || '100'\<close>, \<^verbatim>\<open>TOKEN_REPAY_AMOUNT || '0'\<close>, \<^verbatim>\<open>TOKEN_WITHDRAW_AMOUNT || '0'\<close>)
  and whether \<^verbatim>\<open>INTEREST_RATE_MODE\<close> is read (borrow and repay only; the field does not exist in
  the other two scripts and is left \<^verbatim>\<open>NaN\<close> here). Past the loop over the required fields both
  required addresses are non-empty strings, so \<^verbatim>\<open>lendingPoolAddress!\<close> and \<^verbatim>\<open>tokenAddress!\<close> are those
  strings; the data provider is \<^verbatim>\<open>dataProviderAddress || ''\<close>.
\<close>

datatype operation = OpSupply | OpBorrow | OpRepay | OpWithdraw

record Config =
  network :: string
  lendingPoolAddress :: string
  dataProviderAddress :: string
  tokenName :: string
  tokenAddress :: string
  tokenDecimals :: number
  amount :: string
  interestRateMode :: number
  timeDelay :: number

definition missingVariable :: "bool \<Rightarrow> string \<Rightarrow> string" where
  "missingVariable isLocal name =
     ''Missing required environment variable: '' @ (if isLocal then ''LOCAL_'' else ''SEPOLIA_'')
       @ name @ '' (or fallback '' @ name @ '')''"

definition networkPrefix :: "env \<Rightarrow> string" where
  \<comment> \<open>\<^verbatim>\<open>const prefix = isLocal ? 'LOCAL_' : 'SEPOLIA_'\<close>\<close>
  "networkPrefix env = (if isLocalNetwork env then ''LOCAL_'' else ''SEPOLIA_'')"

fun checkRequired :: "bool \<Rightarrow> (string \<times> string option) list \<Rightarrow> string option" where
  \<comment> \<open>the \<^verbatim>\<open>for (const field of required)\<close> loop; the result is the message of the thrown error\<close>
  "checkRequired isLocal [] = None"
| "checkRequired isLocal ((name, v) # rest) =
     (if \<not> truthy v then Some (missingVariable isLocal name) else checkRequired isLocal rest)"

definition amountVariable :: "operation \<Rightarrow> string \<times> string" where
  "amountVariable op =
     (case op of
        OpSupply \<Rightarrow> (''TOKEN_SUPPLY_AMOUNT'', ''100'')
      | OpBorrow \<Rightarrow> (''TOKEN_BORROW_AMOUNT'', ''100'')
      | OpRepay \<Rightarrow> (''TOKEN_REPAY_AMOUNT'', ''0'')
      | OpWithdraw \<Rightarrow> (''TOKEN_WITHDRAW_AMOUNT'', ''0''))"

definition loadConfig :: "lib \<Rightarrow> operation \<Rightarrow> env \<Rightarrow> string + Config" where
  "loadConfig L op env =
     (let network = or_default (env ''NETWORK'') ''localhost'';
          isLocal = (network = ''hardhat'' \<or> network = ''localhost'');
          tokenAddress = (if isLocal
            then js_or (env ''LOCAL_TOKEN_ADDRESS'') (env ''TOKEN_ADDRESS'')
            else js_or (env ''SEPOLIA_TOKEN_ADDRESS'') (env ''TOKEN_ADDRESS''));
          lendingPoolAddress = (if isLocal
            then js_or (env ''LOCAL_LENDING_POOL_ADDRESS'') (env ''LENDING_POOL_ADDRESS'')
            else js_or (env ''SEPOLIA_LENDING_POOL_ADDRESS'') (env ''LENDING_POOL_ADDRESS''));
          dataProviderAddress = (if isLocal
            then js_or (env ''LOCAL_DATA_PROVIDER_ADDRESS'') (env ''DATA_PROVIDER_ADDRESS'')
            else js_or (env ''SEPOLIA_DATA_PROVIDER_ADDRESS'') (env ''DATA_PROVIDER_ADDRESS''));
          required = [(''LENDING_POOL_ADDRESS'', lendingPoolAddress),
                      (''TOKEN_ADDRESS'', tokenAddress)]
      in case checkRequired isLocal required of
           Some message \<Rightarrow> Inl message
         | None \<Rightarrow> Inr \<lparr>
             network = network,
             lendingPoolAddress = or_default lendingPoolAddress [],
             dataProviderAddress = or_default dataProviderAddress [],
             tokenName = or_default (env ''TOKEN_NAME'') ''TOKEN'',
             tokenAddress = or_default tokenAddress [],
             tokenDecimals = parseInt L (or_default (env ''TOKEN_DECIMALS'') ''18''),
             amount = or_default (env (fst (amountVariable op))) (snd (amountVariable op)),
             interestRateMode = (if op = OpBorrow \<or> op = OpRepay
                then parseInt L (or_default (env ''INTEREST_RATE_MODE'') ''2'') else None),
             timeDelay = parseInt L (or_default (env ''TIME_DELAY'') ''86400'') \<rparr>)"

section \<open>The chain and the script language\<close>

text \<open>
  Everything the scripts learn from, or do to, the network goes through ethers contract
  objects. The network is a parameter of the model: a state \<open>'w\<close>, read calls that answer
  from a state or fail with the message of the thrown error, and one function \<open>submit\<close> that
  answers a state-changing call with the next state or with the message of the rejection.
  Numbers returned by contracts are \<^verbatim>\<open>uint256\<close> values held in \<^verbatim>\<open>BigNumber\<close>s, which do not
  overflow: they are natural numbers here, and amounts produced by \<^verbatim>\<open>parseUnits\<close> are integers.
\<close>

type_synonym address = string

definition AddressZero :: address where
  "AddressZero = ''0x0000000000000000000000000000000000000000''"

definition MaxUint256 :: int where
  "MaxUint256 = 2 ^ 256 - 1"

record ReserveData =
  aTokenAddress :: address
  configuration :: uint256

record UserReserveData =
  currentATokenBalance :: nat
  currentStableDebt :: nat
  currentVariableDebt :: nat

record UserAccountData =
  totalCollateralETH :: nat
  totalDebtETH :: nat
  availableBorrowsETH :: nat
  currentLiquidationThreshold :: nat
  ltv :: nat
  healthFactor :: nat

datatype tx =
    TxApprove address address address int
      \<comment> \<open>token, sender, spender, amount\<close>
  | TxDeposit address address address int address nat
      \<comment> \<open>pool, sender, asset, amount, onBehalfOf, referralCode\<close>
  | TxBorrow address address address int number nat address
      \<comment> \<open>pool, sender, asset, amount, interestRateMode, referralCode, onBehalfOf\<close>
  | TxRepay address address address int number address
      \<comment> \<open>pool, sender, asset, amount, rateMode, onBehalfOf\<close>
  | TxWithdraw address address address int address
      \<comment> \<open>pool, sender, asset, amount, to\<close>
  | EvmIncreaseTime number
  | EvmMine

record 'w chain =
  getSigners :: "'w \<Rightarrow> string + address list"
  getContractAt :: "'w \<Rightarrow> string \<Rightarrow> address \<Rightarrow> string + unit"
  balanceOf :: "'w \<Rightarrow> address \<Rightarrow> address \<Rightarrow> string + nat"
  symbol :: "'w \<Rightarrow> address \<Rightarrow> string + string"
  decimals :: "'w \<Rightarrow> address \<Rightarrow> string + nat"
  paused :: "'w \<Rightarrow> address \<Rightarrow> string + bool"
  getReserveData :: "'w \<Rightarrow> address \<Rightarrow> address \<Rightarrow> string + ReserveData"
  getReservesList :: "'w \<Rightarrow> address \<Rightarrow> string + address list"
  getAllReservesTokens :: "'w \<Rightarrow> address \<Rightarrow> string + (string \<times> address) list"
  getUserReserveData :: "'w \<Rightarrow> address \<Rightarrow> address \<Rightarrow> address \<Rightarrow> string + UserReserveData"
  getUserAccountData :: "'w \<Rightarrow> address \<Rightarrow> address \<Rightarrow> string + UserAccountData"
  submit :: "'w \<Rightarrow> tx \<Rightarrow> string + 'w"

text \<open>
  A run leaves a trace: the console lines it printed and the state-changing calls it
  submitted, in order. \<open>Submitted t\<close> records that the script issued the call \<open>t\<close>, whether the
  network then accepts or rejects it. The trace keeps the lines that report an outcome or a
  decision.
  Banners, the echo of the configuration, of balances and of debts, progress announcements
  and the percentages computed in floating point are not part of it; none of them changes
  the control flow. Fixed lines are quoted without their leading emoji; lines that print the
  infinity sign have a constructor of their own.
\<close>

datatype ErrorKind =
    InvalidCollateralReserve | InvalidAmount | CollateralCannotCover | PoolPaused
  | NoMatchingDebt | AmountExceedsDebt | NoVariableDebt
  | NotEnoughATokens | HealthFactorBelowThreshold | NotEnoughLiquidity
  | Unrecognized

datatype line =
    Text string
  | ErrorMessage string
      \<comment> \<open>\<^verbatim>\<open>console.log('Error:', error.message)\<close>, and the same line of the final \<^verbatim>\<open>catch\<close>\<close>
  | ErrorObject string
      \<comment> \<open>\<^verbatim>\<open>console.error(error)\<close>\<close>
  | Diagnostic string string
      \<comment> \<open>a fixed label followed by \<^verbatim>\<open>e.message\<close>\<close>
  | Hint ErrorKind
      \<comment> \<open>one of the "Error code n: ..." lines\<close>
  | HealthFactorInfinite
      \<comment> \<open>\<^verbatim>\<open>'Health Factor: (infinity sign) (No debt)'\<close>\<close>
  | HealthFactorValue nat
      \<comment> \<open>\<^verbatim>\<open>'Health Factor:', formatUnits(hf, 18)\<close>\<close>
  | AllDebtRepaidInfinite
      \<comment> \<open>\<^verbatim>\<open>'All debt repaid! Health Factor: (infinity sign) (Infinite)'\<close>\<close>
  | DebtFullyRepaidInfinite
      \<comment> \<open>\<^verbatim>\<open>'Debt fully repaid - Health Factor: (infinity sign)'\<close>\<close>
  | PreviousHealthFactor nat
  | ReserveFlags bool bool
      \<comment> \<open>\<^verbatim>\<open>'Is Active:', isActive\<close> and \<^verbatim>\<open>'Is Frozen:', isFrozen\<close>\<close>
  | Balances nat string address nat nat nat nat
      \<comment> \<open>position, symbol, address, decimals, wallet, deposited, total\<close>
  | ReserveError nat string address string

datatype event = Out line | Submitted tx

fun submitted :: "event list \<Rightarrow> tx list" where
  \<comment> \<open>the state-changing calls of a trace\<close>
  "submitted [] = []"
| "submitted (Out l # es) = submitted es"
| "submitted (Submitted t # es) = t # submitted es"

text \<open>
  An \<^verbatim>\<open>async\<close> function body either goes on to its next statement with a value, returns, or
  throws. A script takes the state of the chain and yields its trace, the state it leaves
  and how it completed.
\<close>

datatype 'a completion = Next 'a | Return | Throw string

type_synonym ('w, 'a) script = "'w \<Rightarrow> event list \<times> 'w \<times> 'a completion"

definition andThen :: "('w, 'a) script \<Rightarrow> ('a \<Rightarrow> ('w, 'b) script) \<Rightarrow> ('w, 'b) script" where
  "andThen m k w =
     (case m w of
        (tr, w', Next a) \<Rightarrow> (case k a w' of (tr', w'', c) \<Rightarrow> (tr @ tr', w'', c))
      | (tr, w', Return) \<Rightarrow> (tr, w', Return)
      | (tr, w', Throw e) \<Rightarrow> (tr, w', Throw e))"

definition seq :: "('w, unit) script \<Rightarrow> ('w, 'b) script \<Rightarrow> ('w, 'b) script" where
  "seq m k = andThen m (\<lambda>_. k)"

definition yield :: "'a \<Rightarrow> ('w, 'a) script" where
  "yield a w = ([], w, Next a)"

definition skip :: "('w, unit) script" where
  "skip = yield ()"

definition returnNow :: "('w, 'a) script" where
  "returnNow w = ([], w, Return)"

definition attempt :: "string + 'a \<Rightarrow> ('w, 'a) script" where
  \<comment> \<open>a local computation that may throw\<close>
  "attempt r w = (case r of Inl e \<Rightarrow> ([], w, Throw e) | Inr a \<Rightarrow> ([], w, Next a))"

definition await :: "('w \<Rightarrow> string + 'a) \<Rightarrow> ('w, 'a) script" where
  \<comment> \<open>a read call\<close>
  "await f w = attempt (f w) w"

definition send :: "'w chain \<Rightarrow> tx \<Rightarrow> ('w, unit) script" where
  \<comment> \<open>a state-changing call and the wait for its settlement\<close>
  "send C t w =
     (case submit C w t of
        Inl e \<Rightarrow> ([Submitted t], w, Throw e)
      | Inr w' \<Rightarrow> ([Submitted t], w', Next ()))"

definition say :: "line \<Rightarrow> ('w, unit) script" where
  "say l w = ([Out l], w, Next ())"

definition sayAll :: "line list \<Rightarrow> ('w, unit) script" where
  "sayAll ls w = (map Out ls, w, Next ())"

definition tryCatch :: "('w, 'a) script \<Rightarrow> (string \<Rightarrow> ('w, 'a) script) \<Rightarrow> ('w, 'a) script" where
  "tryCatch body handler w =
     (case body w of
        (tr, w', Throw e) \<Rightarrow> (case handler e w' of (tr', w'', c) \<Rightarrow> (tr @ tr', w'', c))
      | (tr, w', Next a) \<Rightarrow> (tr, w', Next a)
      | (tr, w', Return) \<Rightarrow> (tr, w', Return))"

text \<open>
  Every script ends with
  \<^verbatim>\<open>
    main()
      .then(() => process.exit(0))
      .catch((error) => { console.error('\n Error:', error.message); process.exit(1); });
  \<close>
  (\<^verbatim>\<open>check-pool-config.ts\<close> and \<^verbatim>\<open>check-balance.ts\<close> print \<^verbatim>\<open>console.error(error)\<close> instead). The
  result is the trace, the final state and the exit status.
\<close>

definition runMain :: "('w, unit) script \<Rightarrow> 'w \<Rightarrow> event list \<times> 'w \<times> nat" where
  "runMain main w =
     (case main w of
        (tr, w', Throw e) \<Rightarrow> (tr @ [Out (ErrorMessage e)], w', 1)
      | (tr, w', Next _) \<Rightarrow> (tr, w', 0)
      | (tr, w', Return) \<Rightarrow> (tr, w', 0))"

definition runCheck :: "('w, unit) script \<Rightarrow> 'w \<Rightarrow> event list \<times> 'w \<times> nat" where
  "runCheck main w =
     (case main w of
        (tr, w', Throw e) \<Rightarrow> (tr @ [Out (ErrorObject e)], w', 1)
      | (tr, w', Next _) \<Rightarrow> (tr, w', 0)
      | (tr, w', Return) \<Rightarrow> (tr, w', 0))"

section \<open>The shared opening of the four operation scripts\<close>

text \<open>
  The account selection (\<^verbatim>\<open>supply-to-pool-configurable.ts\<close> lines 88-110, and the same lines
  in the borrow, repay and withdraw scripts):
  \<^verbatim>\<open>
    if (isLocal) {
      if (signers.length < 2) { throw new Error('Local network needs at least 2 accounts ...'); }
      const [deployer, localUser] = signers;  user1 = localUser;
    } else {
      if (signers.length === 0) { throw new Error('No accounts configured! ...'); }
      user1 = signers[0];
    }
  \<close>
  The messages of thrown errors are quoted without their leading emoji, like the console
  lines.
\<close>

definition selectUser :: "bool \<Rightarrow> address list \<Rightarrow> string + address" where
  "selectUser isLocal signers =
     (if isLocal then
        (if length signers < 2
         then Inl ''Local network needs at least 2 accounts (deployer + user)''
         else Inr (signers ! 1))
      else
        (if length signers = 0
         then Inl ''No accounts configured! Check your .env file and hardhat.config.ts''
         else Inr (signers ! 0)))"

definition IERC20 :: string where
  "IERC20 = ''contracts/dependencies/openzeppelin/contracts/IERC20.sol:IERC20''"

text \<open>
  Each of the four \<^verbatim>\<open>main\<close> functions starts by loading the configuration, selecting the
  account, connecting to the pool and the token, and reading and printing the wallet balance
  (\<^verbatim>\<open>formatUnits(balance, config.token.decimals)\<close>, the first use of the configured decimals).
  None of these steps is inside a \<^verbatim>\<open>try\<close>.
\<close>

definition prologue :: "lib \<Rightarrow> 'w chain \<Rightarrow> operation \<Rightarrow> env \<Rightarrow> ('w, Config \<times> address \<times> nat) script" where
  "prologue L C op env =
     andThen (attempt (loadConfig L op env)) (\<lambda>config.
     andThen (await (getSigners C)) (\<lambda>signers.
     andThen (attempt (selectUser (isLocalNetwork env) signers)) (\<lambda>user1.
     seq (await (\<lambda>w. getContractAt C w ''ILendingPool'' (lendingPoolAddress config)))
    (seq (await (\<lambda>w. getContractAt C w IERC20 (tokenAddress config)))
    (andThen (await (\<lambda>w. balanceOf C w (tokenAddress config) user1)) (\<lambda>initialBalance.
     seq (attempt (formatUnits L (tokenDecimals config)))
         (yield (config, user1, initialBalance))))))))"

text \<open>
  The time travel of the local network: \<^verbatim>\<open>evm_increaseTime\<close> then \<^verbatim>\<open>evm_mine\<close>.
\<close>

definition fastForward :: "'w chain \<Rightarrow> Config \<Rightarrow> ('w, unit) script" where
  "fastForward C config =
     seq (send C (EvmIncreaseTime (timeDelay config)))
    (seq (send C EvmMine)
         (say (Text ''Time advanced'')))"

definition walletOnly :: "'w chain \<Rightarrow> Config \<Rightarrow> address \<Rightarrow> ('w, unit) script" where
  \<comment> \<open>the \<^verbatim>\<open>else\<close> branch of every final summary\<close>
  "walletOnly C config user1 =
     seq (say (Text ''No Data Provider address configured - skipping detailed summary''))
         (andThen (await (\<lambda>w. balanceOf C w (tokenAddress config) user1)) (\<lambda>finalBalance. skip))"

definition summaryFailed :: "string \<Rightarrow> ('w, unit) script" where
  \<comment> \<open>the \<^verbatim>\<open>catch\<close> of every final summary\<close>
  "summaryFailed e =
     seq (say (Text ''Could not fetch detailed reserve data'')) (say (ErrorMessage e))"

section \<open>Supply (\<^verbatim>\<open>supply-to-pool-configurable.ts\<close>)\<close>

definition supply_deposit :: "'w chain \<Rightarrow> Config \<Rightarrow> address \<Rightarrow> nat \<Rightarrow> int \<Rightarrow> ('w, unit) script" where
  \<comment> \<open>lines 138-161\<close>
  "supply_deposit C config user1 userBalance supplyAmountWei =
     (if supplyAmountWei \<le> int userBalance then
        seq (send C (TxApprove (tokenAddress config) user1 (lendingPoolAddress config) supplyAmountWei))
       (seq (say (Text ''Approved''))
       (seq (send C (TxDeposit (lendingPoolAddress config) user1 (tokenAddress config)
                       supplyAmountWei user1 0))
            (say (Text ''Deposited''))))
      else say (Text (''Insufficient '' @ tokenName config @ '' balance'')))"

definition supply_summary :: "'w chain \<Rightarrow> Config \<Rightarrow> address \<Rightarrow> ('w, unit) script" where
  \<comment> \<open>lines 176-231\<close>
  "supply_summary C config user1 =
     (if dataProviderAddress config \<noteq> [] then
        tryCatch
          (seq (await (\<lambda>w. getContractAt C w ''AaveProtocolDataProvider'' (dataProviderAddress config)))
          (andThen (await (\<lambda>w. getUserReserveData C w (dataProviderAddress config)
                                  (tokenAddress config) user1)) (\<lambda>userReserve.
           andThen (await (\<lambda>w. balanceOf C w (tokenAddress config) user1)) (\<lambda>finalBalance.
           skip))))
          (\<lambda>e. seq (summaryFailed e)
                    (if dataProviderAddress config = []
                     then say (Text ''No DATA_PROVIDER_ADDRESS configured in .env'') else skip))
      else walletOnly C config user1)"

definition supply_main :: "lib \<Rightarrow> 'w chain \<Rightarrow> env \<Rightarrow> ('w, unit) script" where
  "supply_main L C env =
     andThen (prologue L C OpSupply env) (\<lambda>(config, user1, userBalance).
     andThen (attempt (parseUnits L (amount config) (tokenDecimals config))) (\<lambda>supplyAmountWei.
     seq (supply_deposit C config user1 userBalance supplyAmountWei)
    (seq (if isLocalNetwork env then fastForward C config
          else say (Text ''[LIVE NETWORK] Time passes naturally''))
    (seq (supply_summary C config user1)
         (say (Text ''All supply operations completed!''))))))"

section \<open>Failure messages and their hints\<close>

text \<open>
  \<^verbatim>\<open>String.prototype.includes\<close>: whether the second string occurs in the first.
\<close>

fun includesStr :: "string \<Rightarrow> string \<Rightarrow> bool" where
  "includesStr [] sub = (sub = [])"
| "includesStr (c # cs) sub = (take (length sub) (c # cs) = sub \<or> includesStr cs sub)"

text \<open>
  The three \<^verbatim>\<open>catch\<close> blocks test the message against error codes in a fixed order and print
  the hint of the first code found; they print no hint when none is found, which is the
  kind \<open>Unrecognized\<close>.
  \<^verbatim>\<open>
    if (error.message.includes('1')) { ... 'Error code 1: Invalid reserve used as collateral'
    } else if (error.message.includes('3')) { ... 'Error code 3: Invalid amount (0 or exceeds max)'
    } else if (error.message.includes('11')) { ... 'Error code 11: Collateral cannot cover new borrow'
    } else if (error.message.includes('64')) { ... 'Error code 64: Pool is paused' }
  \<close>
\<close>

definition borrow_kind :: "string \<Rightarrow> ErrorKind" where
  \<comment> \<open>\<^verbatim>\<open>borrow-from-pool-configurable.ts\<close> lines 205-214\<close>
  "borrow_kind message =
     (if includesStr message ''1'' then InvalidCollateralReserve
      else if includesStr message ''3'' then InvalidAmount
      else if includesStr message ''11'' then CollateralCannotCover
      else if includesStr message ''64'' then PoolPaused
      else Unrecognized)"

definition repay_kind :: "string \<Rightarrow> ErrorKind" where
  \<comment> \<open>repay script, lines 260-267\<close>
  "repay_kind message =
     (if includesStr message ''5'' then NoMatchingDebt
      else if includesStr message ''14'' then AmountExceedsDebt
      else if includesStr message ''15'' then NoVariableDebt
      else Unrecognized)"

definition withdraw_kind :: "string \<Rightarrow> ErrorKind" where
  \<comment> \<open>withdraw script, lines 648-656\<close>
  "withdraw_kind message =
     (if includesStr message ''32'' then NotEnoughATokens
      else if includesStr message ''35'' then HealthFactorBelowThreshold
      else if includesStr message ''33'' then NotEnoughLiquidity
      else Unrecognized)"

definition hintLines :: "ErrorKind \<Rightarrow> line list" where
  "hintLines k = (if k = Unrecognized then [] else [Hint k])"

definition failed :: "string \<Rightarrow> (string \<Rightarrow> ErrorKind) \<Rightarrow> string \<Rightarrow> ('w, unit) script" where
  \<comment> \<open>the body of the \<^verbatim>\<open>catch\<close>: the failure line, the raw message, the hint, \<^verbatim>\<open>return\<close>\<close>
  "failed what kind message =
     seq (say (Text what))
    (seq (say (ErrorMessage message))
    (seq (sayAll (hintLines (kind message)))
         returnNow))"

section \<open>Health factor display\<close>

text \<open>
  The thresholds are written in the scripts as \<^verbatim>\<open>ethers.utils.parseUnits('1000000', 18)\<close>,
  \<^verbatim>\<open>parseUnits('1.5', 18)\<close> and \<^verbatim>\<open>parseUnits('2', 18)\<close>.
\<close>

definition infiniteThreshold :: nat where
  "infiniteThreshold = 1000000 * 10 ^ 18"

definition lowThreshold :: nat where
  "lowThreshold = 15 * 10 ^ 17"

definition healthyThreshold :: nat where
  "healthyThreshold = 2 * 10 ^ 18"

text \<open>
  \<^verbatim>\<open>
    if (hfBefore.gt(ethers.utils.parseUnits('1000000', 18))) {
      console.log('Health Factor: (infinity sign) (No debt)');
    } else {
      console.log('Health Factor:', ethers.utils.formatUnits(hfBefore, 18));
    }
  \<close>
  The repay and the withdraw script each contain this text twice (before and after the
  operation).
\<close>

definition renderHealthFactor :: "nat \<Rightarrow> line" where
  "renderHealthFactor hf =
     (if hf > infiniteThreshold then HealthFactorInfinite else HealthFactorValue hf)"

definition repay_improvement :: "UserAccountData \<Rightarrow> UserAccountData \<Rightarrow> line list" where
  \<comment> \<open>repay script, lines 333-371\<close>
  "repay_improvement accountDataBefore accountDataAfter =
     (if totalDebtETH accountDataAfter = 0 then
        [AllDebtRepaidInfinite, Text ''Perfect health - Zero liquidation risk!'']
        @ (if healthFactor accountDataBefore < infiniteThreshold
           then [PreviousHealthFactor (healthFactor accountDataBefore)] else [])
      else
        (if healthFactor accountDataAfter < lowThreshold then
           [Text ''WARNING: Health factor still low! Consider repaying more or adding collateral.'']
         else if healthFactor accountDataAfter \<ge> healthyThreshold then
           [Text ''Healthy position! Low liquidation risk.'']
         else [Text ''Moderate health - Monitor your position.'']))"

definition withdraw_change :: "UserAccountData \<Rightarrow> UserAccountData \<Rightarrow> line list" where
  \<comment> \<open>withdraw script, lines 722-759\<close>
  "withdraw_change accountDataBefore accountDataAfter =
     (if totalDebtETH accountDataBefore > 0 then
        (if totalDebtETH accountDataAfter = 0 then [DebtFullyRepaidInfinite] else [])
        @ (if healthFactor accountDataAfter < lowThreshold \<and> healthFactor accountDataAfter > 0 then
             [Text ''WARNING: Low health factor! Risk of liquidation.'',
              Text ''Consider adding more collateral or repaying debt.'']
           else if totalDebtETH accountDataAfter > 0
                   \<and> healthFactor accountDataAfter \<ge> healthyThreshold then
             [Text ''Healthy position maintained after withdrawal.'']
           else [])
      else [Text ''No debt - Safe to withdraw anytime!''])"

section \<open>Borrow (\<^verbatim>\<open>borrow-from-pool-configurable.ts\<close>)\<close>

definition borrow_checkAccount :: "'w chain \<Rightarrow> Config \<Rightarrow> address \<Rightarrow> ('w, unit) script" where
  \<comment> \<open>lines 135-164\<close>
  "borrow_checkAccount C config user1 =
     (if dataProviderAddress config \<noteq> [] then
        tryCatch
          (andThen (await (\<lambda>w. getUserAccountData C w (lendingPoolAddress config) user1))
             (\<lambda>accountData.
                seq (say (HealthFactorValue (healthFactor accountData)))
                  (if totalCollateralETH accountData = 0 then
                     seq (say (Text ''WARNING: No collateral supplied!'')) returnNow
                   else if availableBorrowsETH accountData = 0 then
                     seq (say (Text ''WARNING: No borrowing capacity available!'')) returnNow
                   else skip)))
          (\<lambda>e. say (Diagnostic ''Could not fetch account data:'' e))
      else skip)"

definition borrow_action :: "'w chain \<Rightarrow> Config \<Rightarrow> address \<Rightarrow> int \<Rightarrow> ('w, unit) script" where
  \<comment> \<open>lines 174-217\<close>
  "borrow_action C config user1 borrowAmountWei =
     tryCatch
       (seq (send C (TxBorrow (lendingPoolAddress config) user1 (tokenAddress config)
                       borrowAmountWei (interestRateMode config) 0 user1))
       (seq (say (Text ''Borrowed successfully!''))
            (andThen (await (\<lambda>w. balanceOf C w (tokenAddress config) user1)) (\<lambda>newBalance. skip))))
       (failed ''Borrow failed!'' borrow_kind)"

definition borrow_summary :: "'w chain \<Rightarrow> Config \<Rightarrow> address \<Rightarrow> ('w, unit) script" where
  \<comment> \<open>lines 231-293\<close>
  "borrow_summary C config user1 =
     (if dataProviderAddress config \<noteq> [] then
        tryCatch
          (seq (await (\<lambda>w. getContractAt C w ''AaveProtocolDataProvider'' (dataProviderAddress config)))
          (andThen (await (\<lambda>w. getUserReserveData C w (dataProviderAddress config)
                                  (tokenAddress config) user1)) (\<lambda>userReserve.
           andThen (await (\<lambda>w. balanceOf C w (tokenAddress config) user1)) (\<lambda>finalBalance.
           andThen (await (\<lambda>w. getUserAccountData C w (lendingPoolAddress config) user1))
             (\<lambda>accountData.
                seq (say (HealthFactorValue (healthFactor accountData)))
                  (if healthFactor accountData < lowThreshold
                   then say (Text ''WARNING: Health factor is low! Risk of liquidation.'')
                   else skip))))))
          summaryFailed
      else walletOnly C config user1)"

definition borrow_main :: "lib \<Rightarrow> 'w chain \<Rightarrow> env \<Rightarrow> ('w, unit) script" where
  "borrow_main L C env =
     andThen (prologue L C OpBorrow env) (\<lambda>(config, user1, initialBalance).
     seq (borrow_checkAccount C config user1)
    (andThen (attempt (parseUnits L (amount config) (tokenDecimals config))) (\<lambda>borrowAmountWei.
     seq (borrow_action C config user1 borrowAmountWei)
    (seq (if isLocalNetwork env then fastForward C config
          else say (Text ''[LIVE NETWORK] Time passes naturally''))
    (seq (borrow_summary C config user1)
         (say (Text ''Borrow operation completed!'')))))))"

section \<open>Repay\<close>

definition repay_checkDebt :: "'w chain \<Rightarrow> Config \<Rightarrow> address \<Rightarrow> ('w, unit) script" where
  \<comment> \<open>lines 135-186\<close>
  "repay_checkDebt C config user1 =
     (if dataProviderAddress config \<noteq> [] then
        tryCatch
          (seq (await (\<lambda>w. getContractAt C w ''AaveProtocolDataProvider'' (dataProviderAddress config)))
          (andThen (await (\<lambda>w. getUserReserveData C w (dataProviderAddress config)
                                  (tokenAddress config) user1)) (\<lambda>userReserve.
             let totalDebt = currentStableDebt userReserve + currentVariableDebt userReserve
             in if totalDebt = 0 then seq (say (Text ''No debt to repay!'')) returnNow
                else
                  let targetDebt = (if interestRateMode config = Some 1
                                    then currentStableDebt userReserve
                                    else currentVariableDebt userReserve)
                  in if targetDebt = 0 then
                       seq (sayAll [Text (''No '' @ (if interestRateMode config = Some 1
                                                      then ''stable'' else ''variable'')
                                           @ '' debt to repay!''),
                                    Text ''Change INTEREST_RATE_MODE in .env to match your debt type''])
                           returnNow
                     else skip)))
          (\<lambda>e. say (Diagnostic ''Could not fetch debt data:'' e))
      else skip)"

definition repayAmountWei :: "lib \<Rightarrow> Config \<Rightarrow> string + int" where
  \<comment> \<open>lines 206-214\<close>
  "repayAmountWei L config =
     (if amount config = ''0'' \<or> amount config = [] then Inr MaxUint256
      else parseUnits L (amount config) (tokenDecimals config))"

definition repay_action :: "'w chain \<Rightarrow> Config \<Rightarrow> address \<Rightarrow> int \<Rightarrow> ('w, unit) script" where
  \<comment> \<open>lines 216-270; the approved amount is \<^verbatim>\<open>MaxUint256\<close> when the amount is that very object
      and the amount otherwise, which is the amount in both cases\<close>
  "repay_action C config user1 amountWei =
     tryCatch
       (seq (send C (TxApprove (tokenAddress config) user1 (lendingPoolAddress config) amountWei))
       (seq (say (Text ''Approved''))
       (seq (send C (TxRepay (lendingPoolAddress config) user1 (tokenAddress config) amountWei
                       (interestRateMode config) user1))
       (seq (say (Text ''Repayment successful!''))
            (andThen (await (\<lambda>w. balanceOf C w (tokenAddress config) user1)) (\<lambda>newBalance. skip))))))
       (failed ''Repayment failed!'' repay_kind)"

definition repay_summary :: "'w chain \<Rightarrow> Config \<Rightarrow> address \<Rightarrow> UserAccountData \<Rightarrow> ('w, unit) script" where
  \<comment> \<open>lines 281-387\<close>
  "repay_summary C config user1 accountDataBefore =
     (if dataProviderAddress config \<noteq> [] then
        tryCatch
          (seq (await (\<lambda>w. getContractAt C w ''AaveProtocolDataProvider'' (dataProviderAddress config)))
          (andThen (await (\<lambda>w. getUserReserveData C w (dataProviderAddress config)
                                  (tokenAddress config) user1)) (\<lambda>userReserve.
           andThen (await (\<lambda>w. balanceOf C w (tokenAddress config) user1)) (\<lambda>finalBalance.
           andThen (await (\<lambda>w. getUserAccountData C w (lendingPoolAddress config) user1))
             (\<lambda>accountDataAfter.
                seq (say (renderHealthFactor (healthFactor accountDataAfter)))
                    (sayAll (repay_improvement accountDataBefore accountDataAfter)))))))
          summaryFailed
      else walletOnly C config user1)"

definition repay_main :: "lib \<Rightarrow> 'w chain \<Rightarrow> env \<Rightarrow> ('w, unit) script" where
  "repay_main L C env =
     andThen (prologue L C OpRepay env) (\<lambda>(config, user1, initialBalance).
     seq (repay_checkDebt C config user1)
    (andThen (await (\<lambda>w. getUserAccountData C w (lendingPoolAddress config) user1))
       (\<lambda>accountDataBefore.
     seq (say (renderHealthFactor (healthFactor accountDataBefore)))
    (andThen (attempt (repayAmountWei L config)) (\<lambda>amountWei.
     seq (repay_action C config user1 amountWei)
    (seq (if isLocalNetwork env then fastForward C config else skip)
    (seq (repay_summary C config user1 accountDataBefore)
         (say (Text ''Repayment operation completed!'')))))))))"

section \<open>Withdraw\<close>

definition withdraw_checkDeposit :: "'w chain \<Rightarrow> Config \<Rightarrow> address \<Rightarrow> ('w, unit) script" where
  \<comment> \<open>lines 527-544\<close>
  "withdraw_checkDeposit C config user1 =
     andThen (await (\<lambda>w. getReserveData C w (lendingPoolAddress config) (tokenAddress config)))
       (\<lambda>reserveData.
     seq (await (\<lambda>w. getContractAt C w IERC20 (aTokenAddress reserveData)))
    (andThen (await (\<lambda>w. balanceOf C w (aTokenAddress reserveData) user1)) (\<lambda>aTokenBalance.
       if aTokenBalance = 0 then
         seq (sayAll [Text ''No tokens deposited to withdraw!'',
                      Text ''First supply tokens using supply-to-pool-configurable.ts''])
             returnNow
       else skip)))"

definition withdraw_position :: "'w chain \<Rightarrow> Config \<Rightarrow> address \<Rightarrow> ('w, unit) script" where
  \<comment> \<open>lines 546-585\<close>
  "withdraw_position C config user1 =
     (if dataProviderAddress config \<noteq> [] then
        tryCatch
          (seq (await (\<lambda>w. getContractAt C w ''AaveProtocolDataProvider'' (dataProviderAddress config)))
          (andThen (await (\<lambda>w. getUserReserveData C w (dataProviderAddress config)
                                  (tokenAddress config) user1)) (\<lambda>userReserve.
             if currentStableDebt userReserve + currentVariableDebt userReserve > 0
             then say (Text ''WARNING: You have outstanding debt!'') else skip)))
          (\<lambda>e. say (Diagnostic ''Could not fetch position data:'' e))
      else skip)"

definition withdrawAmountWei :: "lib \<Rightarrow> Config \<Rightarrow> string + int" where
  \<comment> \<open>lines 605-613\<close>
  "withdrawAmountWei L config =
     (if amount config = ''0'' \<or> amount config = [] then Inr MaxUint256
      else parseUnits L (amount config) (tokenDecimals config))"

definition withdraw_action :: "'w chain \<Rightarrow> Config \<Rightarrow> address \<Rightarrow> int \<Rightarrow> ('w, unit) script" where
  \<comment> \<open>lines 615-659\<close>
  "withdraw_action C config user1 amountWei =
     tryCatch
       (seq (send C (TxWithdraw (lendingPoolAddress config) user1 (tokenAddress config)
                       amountWei user1))
       (seq (say (Text ''Withdrawal successful!''))
            (andThen (await (\<lambda>w. balanceOf C w (tokenAddress config) user1)) (\<lambda>newBalance. skip))))
       (failed ''Withdrawal failed!'' withdraw_kind)"

definition withdraw_summary :: "'w chain \<Rightarrow> Config \<Rightarrow> address \<Rightarrow> UserAccountData \<Rightarrow> ('w, unit) script" where
  \<comment> \<open>lines 670-775\<close>
  "withdraw_summary C config user1 accountDataBefore =
     (if dataProviderAddress config \<noteq> [] then
        tryCatch
          (seq (await (\<lambda>w. getContractAt C w ''AaveProtocolDataProvider'' (dataProviderAddress config)))
          (andThen (await (\<lambda>w. getUserReserveData C w (dataProviderAddress config)
                                  (tokenAddress config) user1)) (\<lambda>userReserve.
           andThen (await (\<lambda>w. balanceOf C w (tokenAddress config) user1)) (\<lambda>finalBalance.
           andThen (await (\<lambda>w. getUserAccountData C w (lendingPoolAddress config) user1))
             (\<lambda>accountDataAfter.
                seq (say (renderHealthFactor (healthFactor accountDataAfter)))
                    (sayAll (withdraw_change accountDataBefore accountDataAfter)))))))
          summaryFailed
      else walletOnly C config user1)"

definition withdraw_main :: "lib \<Rightarrow> 'w chain \<Rightarrow> env \<Rightarrow> ('w, unit) script" where
  "withdraw_main L C env =
     andThen (prologue L C OpWithdraw env) (\<lambda>(config, user1, initialBalance).
     seq (withdraw_checkDeposit C config user1)
    (seq (withdraw_position C config user1)
    (andThen (await (\<lambda>w. getUserAccountData C w (lendingPoolAddress config) user1))
       (\<lambda>accountDataBefore.
     seq (say (renderHealthFactor (healthFactor accountDataBefore)))
    (andThen (attempt (withdrawAmountWei L config)) (\<lambda>amountWei.
     seq (withdraw_action C config user1 amountWei)
    (seq (if isLocalNetwork env then fastForward C config else skip)
    (seq (withdraw_summary C config user1 accountDataBefore)
         (say (Text ''Withdrawal operation completed!''))))))))))"

section \<open>Diagnostics (\<^verbatim>\<open>check-pool-config.ts\<close>)\<close>

definition checkPaused :: "'w chain \<Rightarrow> address \<Rightarrow> ('w, bool) script" where
  \<comment> \<open>lines 42-57: \<^verbatim>\<open>isPoolPaused\<close> stays \<^verbatim>\<open>false\<close> when the read fails\<close>
  "checkPaused C pool =
     tryCatch
       (andThen (await (\<lambda>w. paused C w pool)) (\<lambda>isPoolPaused.
          seq (if isPoolPaused then say (Text ''WARNING: The entire pool is PAUSED!'') else skip)
              (yield isPoolPaused)))
       (\<lambda>e. seq (say (Text ''Could not check pool pause status'')) (yield False))"

definition verdict :: "string \<Rightarrow> ReserveData \<Rightarrow> bool \<Rightarrow> line list" where
  \<comment> \<open>lines 69-101\<close>
  "verdict name reserveData isPoolPaused =
     (let configData = configuration reserveData;
          active = isActive configData;
          frozen = isFrozen configData
      in ReserveFlags active frozen #
         (if aTokenAddress reserveData = AddressZero then
            [Text (''ERROR: '' @ name @ '' is NOT initialized in this pool!'')]
          else if \<not> active then [Text ''ERROR: Reserve is not active!'']
          else if frozen then [Text ''ERROR: Reserve is frozen!'']
          else
            Text ''Reserve is configured correctly'' #
            (if isPoolPaused
             then [Text ''BUT the pool is PAUSED - all deposits will fail with error 64!'']
             else [Text (''Pool is active - you should be able to deposit '' @ name @ ''!'')])))"

definition checkPoolConfig_main :: "'w chain \<Rightarrow> env \<Rightarrow> ('w, unit) script" where
  "checkPoolConfig_main C env =
     (let isLocal = isLocalNetwork env;
          lendingPoolAddress = (if isLocal
            then js_or (env ''LOCAL_LENDING_POOL_ADDRESS'') (env ''LENDING_POOL_ADDRESS'')
            else js_or (env ''SEPOLIA_LENDING_POOL_ADDRESS'') (env ''LENDING_POOL_ADDRESS''));
          tokenAddress = (if isLocal
            then js_or (env ''LOCAL_TOKEN_ADDRESS'') (env ''TOKEN_ADDRESS'')
            else js_or (env ''SEPOLIA_TOKEN_ADDRESS'') (env ''TOKEN_ADDRESS''))
      in if \<not> truthy lendingPoolAddress \<or> \<not> truthy tokenAddress then
           seq (sayAll [Text ''Missing required environment variables!'',
                        Text ''Need: LENDING_POOL_ADDRESS and TOKEN_ADDRESS'',
                        Text ''Or: LOCAL_*/SEPOLIA_* prefixed versions based on NETWORK setting''])
               returnNow
         else
           let tokenName = or_default (env ''TOKEN_NAME'') ''TOKEN'';
               pool = or_default lendingPoolAddress [];
               token = or_default tokenAddress []
           in seq (await (\<lambda>w. getContractAt C w ''ILendingPool'' pool))
                (andThen (checkPaused C pool) (\<lambda>isPoolPaused.
                   tryCatch
                     (andThen (await (\<lambda>w. getReserveData C w pool token)) (\<lambda>reserveData.
                        sayAll (verdict tokenName reserveData isPoolPaused)))
                     (\<lambda>e. say (Diagnostic ''ERROR reading reserve data:'' e)))))"

section \<open>Balances (\<^verbatim>\<open>check-balance.ts\<close>)\<close>

record TokenBalance =
  tbSymbol :: string
  tbDecimals :: nat
  wallet :: nat
  deposited :: nat
  total :: nat

text \<open>
  The token metadata (lines 143-155): the symbol is read only when the reserve came without
  one, then the decimals; whatever was assigned before a failure is kept.
\<close>

definition readMetadata :: "'w chain \<Rightarrow> 'w \<Rightarrow> string \<Rightarrow> address \<Rightarrow> string \<times> nat" where
  "readMetadata C w reserveSymbol tokenAddr =
     (if reserveSymbol = ''???'' then
        (case symbol C w tokenAddr of
           Inl e \<Rightarrow> (reserveSymbol, 18)
         | Inr s \<Rightarrow> (case decimals C w tokenAddr of Inl e \<Rightarrow> (s, 18) | Inr d \<Rightarrow> (s, d)))
      else
        (case decimals C w tokenAddr of Inl e \<Rightarrow> (reserveSymbol, 18) | Inr d \<Rightarrow> (reserveSymbol, d)))"

definition readDeposited :: "'w chain \<Rightarrow> 'w \<Rightarrow> address \<Rightarrow> address \<Rightarrow> address \<Rightarrow> nat" where
  \<comment> \<open>lines 160-175: \<^verbatim>\<open>aTokenBalance\<close> starts at 0 and every error is ignored\<close>
  "readDeposited C w pool user tokenAddr =
     (case getReserveData C w pool tokenAddr of
        Inl e \<Rightarrow> 0
      | Inr reserveData \<Rightarrow>
          if aTokenAddress reserveData \<noteq> AddressZero then
            (case balanceOf C w (aTokenAddress reserveData) user of Inl e \<Rightarrow> 0 | Inr b \<Rightarrow> b)
          else 0)"

definition readBalance :: "'w chain \<Rightarrow> 'w \<Rightarrow> address \<Rightarrow> address \<Rightarrow> string \<times> address \<Rightarrow> string + TokenBalance" where
  \<comment> \<open>the body of the outer \<^verbatim>\<open>try\<close> of the loop, lines 135-177\<close>
  "readBalance C w pool user reserve =
     (let (symbol', decimals') = readMetadata C w (fst reserve) (snd reserve)
      in case balanceOf C w (snd reserve) user of
           Inl e \<Rightarrow> Inl e
         | Inr walletBalance \<Rightarrow>
             let aTokenBalance = readDeposited C w pool user (snd reserve);
                 totalBalance = walletBalance + aTokenBalance
             in Inr \<lparr> tbSymbol = symbol', tbDecimals = decimals', wallet = walletBalance,
                      deposited = aTokenBalance, total = totalBalance \<rparr>)"

fun balanceLoop :: "'w chain \<Rightarrow> 'w \<Rightarrow> address \<Rightarrow> address \<Rightarrow> nat \<Rightarrow> (string \<times> address) list \<Rightarrow> line list \<times> bool" where
  \<comment> \<open>the \<^verbatim>\<open>for\<close> loop, lines 132-198, from index \<open>i\<close>; the flag is \<^verbatim>\<open>hasAnyBalance\<close>\<close>
  "balanceLoop C w pool user i [] = ([], False)"
| "balanceLoop C w pool user i (reserve # rest) =
     (let (ls, hasAny) = balanceLoop C w pool user (i + 1) rest
      in case readBalance C w pool user reserve of
           Inl e \<Rightarrow>
             (ReserveError (i + 1) (if fst reserve = [] then ''Unknown'' else fst reserve)
                (snd reserve) e # ls, hasAny)
         | Inr b \<Rightarrow>
             if total b > 0 then
               (Balances (i + 1) (tbSymbol b) (snd reserve) (tbDecimals b)
                  (wallet b) (deposited b) (total b) # ls, True)
             else (ls, hasAny))"

definition listReserves :: "'w chain \<Rightarrow> address \<Rightarrow> string option \<Rightarrow> ('w, (string \<times> address) list) script" where
  \<comment> \<open>lines 66-112: the data provider first, the pool's own list when that gave nothing\<close>
  "listReserves C pool dataProvider =
     andThen
       (if truthy dataProvider then
          tryCatch
            (seq (await (\<lambda>w. getContractAt C w ''AaveProtocolDataProvider''
                                (or_default dataProvider [])))
                 (await (\<lambda>w. getAllReservesTokens C w (or_default dataProvider []))))
            (\<lambda>e. seq (say (Diagnostic ''Could not get reserves from Data Provider:'' e)) (yield []))
        else yield [])
       (\<lambda>reserves.
          if length reserves = 0 then
            tryCatch
              (andThen (await (\<lambda>w. getReservesList C w pool)) (\<lambda>reservesList.
                 yield (map (\<lambda>tokenAddress. (''???'', tokenAddress)) reservesList)))
              (\<lambda>e. seq (sayAll [Diagnostic ''Could not get reserves list:'' e,
                                 Text ''Try setting DATA_PROVIDER_ADDRESS in .env''])
                        returnNow)
          else yield reserves)"

definition checkBalance_user :: "bool \<Rightarrow> address list \<Rightarrow> ('w, address) script" where
  \<comment> \<open>lines 40-62; on a local network without any account \<^verbatim>\<open>user\<close> is \<^verbatim>\<open>undefined\<close> and
      \<^verbatim>\<open>user.address\<close> throws a \<^verbatim>\<open>TypeError\<close>\<close>
  "checkBalance_user isLocal signers =
     (if isLocal then
        (if length signers < 2 then
           seq (say (Text ''Only 1 account available on local network''))
               (if signers = []
                then attempt (Inl ''Cannot read properties of undefined (reading address)'')
                else yield (signers ! 0))
         else yield (signers ! 1))
      else
        (if length signers = 0 then seq (say (Text ''No accounts configured!'')) returnNow
         else yield (signers ! 0)))"

definition checkBalance_main :: "'w chain \<Rightarrow> env \<Rightarrow> ('w, unit) script" where
  "checkBalance_main C env =
     (let isLocal = isLocalNetwork env;
          lendingPoolAddress = (if isLocal
            then js_or (env ''LOCAL_LENDING_POOL_ADDRESS'') (env ''LENDING_POOL_ADDRESS'')
            else js_or (env ''SEPOLIA_LENDING_POOL_ADDRESS'') (env ''LENDING_POOL_ADDRESS''));
          dataProviderAddress = (if isLocal
            then js_or (env ''LOCAL_DATA_PROVIDER_ADDRESS'') (env ''DATA_PROVIDER_ADDRESS'')
            else js_or (env ''SEPOLIA_DATA_PROVIDER_ADDRESS'') (env ''DATA_PROVIDER_ADDRESS''))
      in if \<not> truthy lendingPoolAddress then
           seq (say (Text ''Missing LENDING_POOL_ADDRESS in .env'')) returnNow
         else
           let pool = or_default lendingPoolAddress []
           in andThen (await (getSigners C)) (\<lambda>signers.
              andThen (checkBalance_user isLocal signers) (\<lambda>user.
              seq (await (\<lambda>w. getContractAt C w ''ILendingPool'' pool))
             (andThen (listReserves C pool dataProviderAddress) (\<lambda>reserves.
                if length reserves = 0 then
                  seq (say (Text ''No reserves found in this pool!'')) returnNow
                else
                  andThen (\<lambda>w. yield (balanceLoop C w pool user 0 reserves) w) (\<lambda>(ls, hasAnyBalance).
                  seq (sayAll ls)
                      (if \<not> hasAnyBalance
                       then say (Text ''No token balances found for this address'')
                       else say (Text ''Balance check complete!''))))))))"

section \<open>What a run submits\<close>

fun txAmount :: "tx \<Rightarrow> int option" where
  \<comment> \<open>the amount argument of a contract call; the two RPC calls of the time travel have none\<close>
  "txAmount (TxApprove token sender spender n) = Some n"
| "txAmount (TxDeposit pool sender asset n onBehalfOf referral) = Some n"
| "txAmount (TxBorrow pool sender asset n mode referral onBehalfOf) = Some n"
| "txAmount (TxRepay pool sender asset n mode onBehalfOf) = Some n"
| "txAmount (TxWithdraw pool sender asset n to) = Some n"
| "txAmount (EvmIncreaseTime seconds) = None"
| "txAmount EvmMine = None"

definition txsIn :: "(tx \<Rightarrow> bool) \<Rightarrow> event list \<times> 'w \<times> 'a completion \<Rightarrow> bool" where
  \<comment> \<open>every call submitted in a run has the property\<close>
  "txsIn P r = list_all P (submitted (fst r))"

section \<open>The classification table of the specification\<close>

text \<open>
  The specification describes the classification as a lookup in a fixed table of error
  codes: the kind of the first entry whose code occurs in the message, \<open>Unrecognized\<close> when
  no code does. The three tables list the codes of the three \<^verbatim>\<open>catch\<close> blocks in their order.
\<close>

definition classify :: "(string \<times> ErrorKind) list \<Rightarrow> string \<Rightarrow> ErrorKind" where
  "classify table message =
     (case find (\<lambda>entry. includesStr message (fst entry)) table of
        None \<Rightarrow> Unrecognized
      | Some entry \<Rightarrow> snd entry)"

definition borrowTable :: "(string \<times> ErrorKind) list" where
  "borrowTable = [(''1'', InvalidCollateralReserve), (''3'', InvalidAmount),
                  (''11'', CollateralCannotCover), (''64'', PoolPaused)]"

definition repayTable :: "(string \<times> ErrorKind) list" where
  "repayTable = [(''5'', NoMatchingDebt), (''14'', AmountExceedsDebt), (''15'', NoVariableDebt)]"

definition withdrawTable :: "(string \<times> ErrorKind) list" where
  "withdrawTable = [(''32'', NotEnoughATokens), (''35'', HealthFactorBelowThreshold),
                    (''33'', NotEnoughLiquidity)]"

section \<open>A concrete library and a concrete pool\<close>

text \<open>
  An instance of the library parameters on whole decimal numbers: \<^verbatim>\<open>parseInt\<close> of a string of
  digits is its value, \<^verbatim>\<open>parseUnits\<close> of a string of digits with \<open>d\<close> decimals is its value
  times \<open>10 ^ d\<close>, and a number of decimals is accepted between 0 and 256. Other strings are
  not numbers for this instance.
\<close>

fun digitsValue :: "nat \<Rightarrow> string \<Rightarrow> nat option" where
  "digitsValue acc [] = Some acc"
| "digitsValue acc (c # cs) =
     (let n = (of_char c :: nat)
      in if 48 \<le> n \<and> n \<le> 57 then digitsValue (10 * acc + (n - 48)) cs else None)"

definition wholeNumber :: "string \<Rightarrow> nat option" where
  "wholeNumber s = (if s = [] then None else digitsValue 0 s)"

definition demoLib :: lib where
  "demoLib = \<lparr>
     parseInt = (\<lambda>s. map_option int (wholeNumber s)),
     parseUnits = (\<lambda>s d.
       case (wholeNumber s, d) of
         (Some n, Some k) \<Rightarrow>
           if 0 \<le> k \<and> k \<le> 256 then Inr (int n * 10 ^ nat k) else Inl ''invalid decimal size''
       | (Some n, None) \<Rightarrow> Inl ''invalid decimal size''
       | (None, _) \<Rightarrow> Inl ''invalid decimal value''),
     formatUnits = (\<lambda>d.
       case d of
         Some k \<Rightarrow> if 0 \<le> k \<and> k \<le> 256 then Inr () else Inl ''invalid decimal size''
       | None \<Rightarrow> Inl ''invalid decimal size'') \<rparr>"

text \<open>
  A pool with one reserve and one user; addresses are written by name (\<open>''0xPool''\<close> stands
  for the address of the pool). Its state is the reserve's configuration word, the
  user's wallet and deposit, the user's two debts and the liquidity the pool can lend. The
  pool answers as the protocol does in the cases used below: a deposit of zero is rejected
  with code 1, a deposit into an inactive reserve with code 2, a borrow beyond the pool's
  liquidity with code 11, a repayment without variable debt with code 15, and a withdrawal
  without a deposit with code 32.
\<close>

record world =
  configWord :: uint256
  walletOf :: nat
  depositOf :: nat
  stableDebtOf :: nat
  variableDebtOf :: nat
  liquidity :: nat

definition demoAccount :: "world \<Rightarrow> UserAccountData" where
  "demoAccount w = \<lparr>
     totalCollateralETH = depositOf w,
     totalDebtETH = stableDebtOf w + variableDebtOf w,
     availableBorrowsETH = depositOf w div 2,
     currentLiquidationThreshold = 8000,
     ltv = 7500,
     healthFactor = (if stableDebtOf w + variableDebtOf w = 0 then nat MaxUint256
                     else depositOf w * 10 ^ 18 div (stableDebtOf w + variableDebtOf w)) \<rparr>"

definition demoSubmit :: "world \<Rightarrow> tx \<Rightarrow> string + world" where
  "demoSubmit w t =
     (case t of
        TxApprove token sender spender n \<Rightarrow> Inr w
      | TxDeposit pool sender asset n onBehalfOf referral \<Rightarrow>
          if n \<le> 0 then Inl ''VM Exception while processing transaction: revert 1''
          else if \<not> isActive (configWord w)
            then Inl ''VM Exception while processing transaction: revert 2''
          else if int (walletOf w) < n then Inl ''SafeERC20: low-level call failed''
          else Inr (w\<lparr>walletOf := walletOf w - nat n, depositOf := depositOf w + nat n\<rparr>)
      | TxBorrow pool sender asset n mode referral onBehalfOf \<Rightarrow>
          if int (liquidity w) < n then Inl ''VM Exception while processing transaction: revert 11''
          else Inr (w\<lparr>walletOf := walletOf w + nat n, variableDebtOf := variableDebtOf w + nat n,
                      liquidity := liquidity w - nat n\<rparr>)
      | TxRepay pool sender asset n mode onBehalfOf \<Rightarrow>
          if variableDebtOf w = 0 then Inl ''VM Exception while processing transaction: revert 15''
          else Inr (w\<lparr>walletOf := walletOf w - variableDebtOf w, variableDebtOf := 0\<rparr>)
      | TxWithdraw pool sender asset n to \<Rightarrow>
          if depositOf w = 0 then Inl ''VM Exception while processing transaction: revert 32''
          else Inr (w\<lparr>walletOf := walletOf w + depositOf w, depositOf := 0\<rparr>)
      | EvmIncreaseTime seconds \<Rightarrow> Inr w
      | EvmMine \<Rightarrow> Inr w)"

definition demoChain :: "world chain" where
  "demoChain = \<lparr>
     getSigners = (\<lambda>w. Inr [''0xDeployer'', ''0xUser'']),
     getContractAt = (\<lambda>w name a. Inr ()),
     balanceOf = (\<lambda>w token user.
       if token = ''0xAToken'' then Inr (depositOf w) else Inr (walletOf w)),
     symbol = (\<lambda>w token. Inr ''DAI''),
     decimals = (\<lambda>w token. Inr 18),
     paused = (\<lambda>w pool. Inr False),
     getReserveData = (\<lambda>w pool asset.
       Inr \<lparr> aTokenAddress = ''0xAToken'', configuration = configWord w \<rparr>),
     getReservesList = (\<lambda>w pool. Inr [''0xToken'']),
     getAllReservesTokens = (\<lambda>w provider. Inr [(''DAI'', ''0xToken'')]),
     getUserReserveData = (\<lambda>w provider asset user.
       Inr \<lparr> currentATokenBalance = depositOf w, currentStableDebt = stableDebtOf w,
             currentVariableDebt = variableDebtOf w \<rparr>),
     getUserAccountData = (\<lambda>w pool user. Inr (demoAccount w)),
     submit = demoSubmit \<rparr>"

definition silentProviderChain :: "world chain" where
  \<comment> \<open>the same pool when the configured data provider address does not answer\<close>
  "silentProviderChain =
     demoChain \<lparr> getUserReserveData := (\<lambda>w provider asset user. Inl ''call revert exception'') \<rparr>"

definition demoWorld :: world where
  \<comment> \<open>the reserve is neither active nor frozen; the user holds 500 tokens of 18 decimals\<close>
  "demoWorld = \<lparr> configWord = 0, walletOf = 500 * 10 ^ 18, depositOf = 0, stableDebtOf = 0,
                 variableDebtOf = 0, liquidity = 0 \<rparr>"

definition activeWorld :: world where
  \<comment> \<open>the same with bit 56 of the configuration word set\<close>
  "activeWorld = demoWorld \<lparr> configWord := 2 ^ 56 \<rparr>"

definition zeroDebtAccount :: UserAccountData where
  \<comment> \<open>an account snapshot without debt whose health factor field reads 2.0\<close>
  "zeroDebtAccount = \<lparr> totalCollateralETH = 1000, totalDebtETH = 0, availableBorrowsETH = 750,
       currentLiquidationThreshold = 8000, ltv = 7500, healthFactor = 2 * 10 ^ 18 \<rparr>"

definition sepoliaEnv :: env where
  \<comment> \<open>a live-network configuration without a data provider\<close>
  "sepoliaEnv = [''NETWORK'' \<mapsto> ''sepolia'',
                 ''SEPOLIA_LENDING_POOL_ADDRESS'' \<mapsto> ''0xPool'',
                 ''TOKEN_ADDRESS'' \<mapsto> ''0xToken'']"

definition zeroAmountEnv :: env where
  \<comment> \<open>the same configuration with the amount 0 for every operation\<close>
  "zeroAmountEnv = sepoliaEnv(''TOKEN_SUPPLY_AMOUNT'' \<mapsto> ''0'', ''TOKEN_BORROW_AMOUNT'' \<mapsto> ''0'')"

definition providerEnv :: env where
  \<comment> \<open>the same configuration with a data provider\<close>
  "providerEnv = sepoliaEnv(''DATA_PROVIDER_ADDRESS'' \<mapsto> ''0xProvider'')"

section \<open>Properties of the decoder\<close>

lemma shr_and_one_eq_bit: "(drop_bit n (w :: uint256) AND 1 = 1) = bit w n"
  by (simp add: and_one_eq bit_iff_odd_drop_bit mod_2_eq_odd)

lemma bit_eq_odd_unat_div: "bit (w :: uint256) n = odd (unat w div 2 ^ n)"
proof -
  have "bit w n = bit (unat w) n"
    by (simp add: bit_unsigned_iff)
  then show ?thesis
    by (simp add: bit_iff_odd)
qed

text \<open>
  C1. For every configuration word the decoder returns \<open>isActive\<close> equal to bit 56 of the word
  and \<open>isFrozen\<close> equal to bit 57, read both as a bit of the word and as the parity of the
  unsigned value shifted right; the decoder is a total function, so it yields a status for
  every word.
\<close>

theorem decode_reads_bits_56_57:
  "decodeStatus w = \<lparr> rsActive = bit w 56, rsFrozen = bit w 57 \<rparr>
   \<and> rsActive (decodeStatus w) = odd (unat w div 2 ^ 56)
   \<and> rsFrozen (decodeStatus w) = odd (unat w div 2 ^ 57)"
  by (simp add: decodeStatus_def isActive_def isFrozen_def shr_and_one_eq_bit bit_eq_odd_unat_div)

section \<open>Network classification and address resolution\<close>

lemma loadConfig_isLocal:
  "(or_default (env ''NETWORK'') ''localhost'' = ''hardhat''
    \<or> or_default (env ''NETWORK'') ''localhost'' = ''localhost'') = isLocalNetwork env"
  by (auto simp: isLocalNetwork_def or_default_def split: option.splits)

lemma loadConfig_Inr:
  assumes "loadConfig L op env = Inr config"
  shows "lendingPoolAddress config =
           (if isLocalNetwork env
            then or_default (js_or (env ''LOCAL_LENDING_POOL_ADDRESS'') (env ''LENDING_POOL_ADDRESS'')) []
            else or_default (js_or (env ''SEPOLIA_LENDING_POOL_ADDRESS'') (env ''LENDING_POOL_ADDRESS'')) [])"
    and "tokenAddress config =
           (if isLocalNetwork env
            then or_default (js_or (env ''LOCAL_TOKEN_ADDRESS'') (env ''TOKEN_ADDRESS'')) []
            else or_default (js_or (env ''SEPOLIA_TOKEN_ADDRESS'') (env ''TOKEN_ADDRESS'')) [])"
    and "dataProviderAddress config =
           (if isLocalNetwork env
            then or_default (js_or (env ''LOCAL_DATA_PROVIDER_ADDRESS'') (env ''DATA_PROVIDER_ADDRESS'')) []
            else or_default (js_or (env ''SEPOLIA_DATA_PROVIDER_ADDRESS'') (env ''DATA_PROVIDER_ADDRESS'')) [])"
  using assms
  by (auto simp: loadConfig_def Let_def loadConfig_isLocal split: option.splits if_splits)

lemma loadConfig_sepoliaEnv:
  "loadConfig demoLib op sepoliaEnv = Inr \<lparr>
     network = ''sepolia'', lendingPoolAddress = ''0xPool'', dataProviderAddress = [],
     tokenName = ''TOKEN'', tokenAddress = ''0xToken'', tokenDecimals = Some 18,
     amount = snd (amountVariable op),
     interestRateMode = (if op = OpBorrow \<or> op = OpRepay then Some 2 else None),
     timeDelay = Some 86400 \<rparr>"
  by (cases op)
     (simp_all add: loadConfig_def sepoliaEnv_def or_default_def js_or_def truthy_def
        amountVariable_def demoLib_def wholeNumber_def)

text \<open>
  C9, as stated: the network is local exactly when \<^verbatim>\<open>NETWORK\<close> is unset, \<^verbatim>\<open>'hardhat'\<close> or
  \<^verbatim>\<open>'localhost'\<close>. It fails for the environment in which \<^verbatim>\<open>NETWORK\<close> is set to the empty
  string: the empty string is falsy, so the default \<^verbatim>\<open>'hardhat'\<close> applies and the network is local.
\<close>

theorem empty_network_counterexample:
  "\<not> (isLocalNetwork [''NETWORK'' \<mapsto> []]
        \<longleftrightarrow> [''NETWORK'' \<mapsto> []] ''NETWORK'' \<in> {None, Some ''hardhat'', Some ''localhost''})"
  by (simp add: isLocalNetwork_def or_default_def)

text \<open>
  C9, amended: the network is local exactly when \<^verbatim>\<open>NETWORK\<close> is unset, empty, \<^verbatim>\<open>'hardhat'\<close> or
  \<^verbatim>\<open>'localhost'\<close>; and whenever \<^verbatim>\<open>loadConfig\<close> succeeds, each address comes from the
  \<^verbatim>\<open>LOCAL_\<close> variable (then the generic one) if the network is local and from the \<^verbatim>\<open>SEPOLIA_\<close>
  variable (then the generic one) for every other network name.
\<close>

theorem network_classification:
  "isLocalNetwork env = (env ''NETWORK'' \<in> {None, Some [], Some ''hardhat'', Some ''localhost''})
   \<and> (loadConfig L op env = Inr config \<longrightarrow>
        lendingPoolAddress config =
          (if isLocalNetwork env
           then or_default (js_or (env ''LOCAL_LENDING_POOL_ADDRESS'') (env ''LENDING_POOL_ADDRESS'')) []
           else or_default (js_or (env ''SEPOLIA_LENDING_POOL_ADDRESS'') (env ''LENDING_POOL_ADDRESS'')) [])
        \<and> tokenAddress config =
          (if isLocalNetwork env
           then or_default (js_or (env ''LOCAL_TOKEN_ADDRESS'') (env ''TOKEN_ADDRESS'')) []
           else or_default (js_or (env ''SEPOLIA_TOKEN_ADDRESS'') (env ''TOKEN_ADDRESS'')) [])
        \<and> dataProviderAddress config =
          (if isLocalNetwork env
           then or_default (js_or (env ''LOCAL_DATA_PROVIDER_ADDRESS'') (env ''DATA_PROVIDER_ADDRESS'')) []
           else or_default (js_or (env ''SEPOLIA_DATA_PROVIDER_ADDRESS'') (env ''DATA_PROVIDER_ADDRESS'')) []))"
proof -
  have "isLocalNetwork env = (env ''NETWORK'' \<in> {None, Some [], Some ''hardhat'', Some ''localhost''})"
    by (auto simp: isLocalNetwork_def or_default_def split: option.splits)
  then show ?thesis
    using loadConfig_Inr [of L op env config] by blast
qed

theorem network_classification_witness:
  "\<not> isLocalNetwork sepoliaEnv
   \<and> (\<exists>c. loadConfig demoLib OpSupply sepoliaEnv = Inr c \<and> lendingPoolAddress c = ''0xPool''
          \<and> lendingPoolAddress c
              = or_default (js_or (sepoliaEnv ''SEPOLIA_LENDING_POOL_ADDRESS'')
                             (sepoliaEnv ''LENDING_POOL_ADDRESS'')) [])"
proof -
  let ?c = "\<lparr> network = ''sepolia'', lendingPoolAddress = ''0xPool'', dataProviderAddress = [],
       tokenName = ''TOKEN'', tokenAddress = ''0xToken'', tokenDecimals = Some 18,
       amount = ''100'', interestRateMode = None, timeDelay = Some 86400 \<rparr>"
  have cfg: "loadConfig demoLib OpSupply sepoliaEnv = Inr ?c"
    by (simp add: loadConfig_sepoliaEnv amountVariable_def)
  have live: "\<not> isLocalNetwork sepoliaEnv"
    by (simp add: isLocalNetwork_def sepoliaEnv_def or_default_def)
  have "lendingPoolAddress ?c = or_default (js_or (sepoliaEnv ''SEPOLIA_LENDING_POOL_ADDRESS'')
                  (sepoliaEnv ''LENDING_POOL_ADDRESS'')) []"
    using network_classification [of sepoliaEnv demoLib OpSupply ?c] cfg live
    by (simp del: fun_upd_apply)
  with cfg live show ?thesis
    by simp
qed

text \<open>
  C5, as stated, asks that resolution fails for every role when neither variable is set. For
  the data provider it does not: with neither \<^verbatim>\<open>SEPOLIA_DATA_PROVIDER_ADDRESS\<close> nor
  \<^verbatim>\<open>DATA_PROVIDER_ADDRESS\<close> set, \<^verbatim>\<open>loadConfig\<close> succeeds and the address is the empty string.
\<close>

theorem optional_data_provider_counterexample:
  "sepoliaEnv ''SEPOLIA_DATA_PROVIDER_ADDRESS'' = None
   \<and> sepoliaEnv ''DATA_PROVIDER_ADDRESS'' = None
   \<and> loadConfig demoLib OpRepay sepoliaEnv = Inr \<lparr>
       network = ''sepolia'', lendingPoolAddress = ''0xPool'', dataProviderAddress = [],
       tokenName = ''TOKEN'', tokenAddress = ''0xToken'', tokenDecimals = Some 18,
       amount = ''0'', interestRateMode = Some 2, timeDelay = Some 86400 \<rparr>"
  by (simp add: loadConfig_sepoliaEnv amountVariable_def) (simp add: sepoliaEnv_def)

text \<open>
  C5, amended. A variable counts as set when it holds a non-empty string. For each of the
  three roles the network-prefixed variable is used when set, otherwise the generic one when
  set. When neither is set: for the lending pool, and then for the token, \<^verbatim>\<open>loadConfig\<close> fails
  with a message naming both the prefixed and the generic variable; for the data provider it
  does not fail, and the address is the empty string. The lending pool and the token alone
  decide whether \<^verbatim>\<open>loadConfig\<close> succeeds.
\<close>

theorem address_resolution_order:
  "(loadConfig L op env = Inr config \<longrightarrow>
      lendingPoolAddress config =
        or_default (env (networkPrefix env @ ''LENDING_POOL_ADDRESS''))
          (or_default (env ''LENDING_POOL_ADDRESS'') [])
      \<and> tokenAddress config =
        or_default (env (networkPrefix env @ ''TOKEN_ADDRESS''))
          (or_default (env ''TOKEN_ADDRESS'') [])
      \<and> dataProviderAddress config =
        or_default (env (networkPrefix env @ ''DATA_PROVIDER_ADDRESS''))
          (or_default (env ''DATA_PROVIDER_ADDRESS'') []))
   \<and> (\<not> truthy (env (networkPrefix env @ ''LENDING_POOL_ADDRESS''))
        \<and> \<not> truthy (env ''LENDING_POOL_ADDRESS'') \<longrightarrow>
      loadConfig L op env = Inl (''Missing required environment variable: '' @ networkPrefix env
        @ ''LENDING_POOL_ADDRESS (or fallback LENDING_POOL_ADDRESS)''))
   \<and> ((truthy (env (networkPrefix env @ ''LENDING_POOL_ADDRESS''))
          \<or> truthy (env ''LENDING_POOL_ADDRESS''))
        \<and> \<not> truthy (env (networkPrefix env @ ''TOKEN_ADDRESS''))
        \<and> \<not> truthy (env ''TOKEN_ADDRESS'') \<longrightarrow>
      loadConfig L op env = Inl (''Missing required environment variable: '' @ networkPrefix env
        @ ''TOKEN_ADDRESS (or fallback TOKEN_ADDRESS)''))
   \<and> ((truthy (env (networkPrefix env @ ''LENDING_POOL_ADDRESS''))
          \<or> truthy (env ''LENDING_POOL_ADDRESS''))
        \<and> (truthy (env (networkPrefix env @ ''TOKEN_ADDRESS''))
          \<or> truthy (env ''TOKEN_ADDRESS'')) \<longrightarrow>
      (\<exists>c. loadConfig L op env = Inr c))"
proof -
  let ?P = "networkPrefix env"
  have names:
    "?P @ ''LENDING_POOL_ADDRESS'' =
       (if isLocalNetwork env then ''LOCAL_LENDING_POOL_ADDRESS'' else ''SEPOLIA_LENDING_POOL_ADDRESS'')"
    "?P @ ''TOKEN_ADDRESS'' =
       (if isLocalNetwork env then ''LOCAL_TOKEN_ADDRESS'' else ''SEPOLIA_TOKEN_ADDRESS'')"
    "?P @ ''DATA_PROVIDER_ADDRESS'' =
       (if isLocalNetwork env then ''LOCAL_DATA_PROVIDER_ADDRESS'' else ''SEPOLIA_DATA_PROVIDER_ADDRESS'')"
    by (simp_all add: networkPrefix_def)
  have order: "or_default (js_or a b) [] = or_default a (or_default b [])" for a b
    by (simp add: js_or_def or_default_def truthy_def split: option.splits)
  have ok: "loadConfig L op env = Inr config \<longrightarrow>
      lendingPoolAddress config =
        or_default (env (?P @ ''LENDING_POOL_ADDRESS'')) (or_default (env ''LENDING_POOL_ADDRESS'') [])
      \<and> tokenAddress config =
        or_default (env (?P @ ''TOKEN_ADDRESS'')) (or_default (env ''TOKEN_ADDRESS'') [])
      \<and> dataProviderAddress config =
        or_default (env (?P @ ''DATA_PROVIDER_ADDRESS'')) (or_default (env ''DATA_PROVIDER_ADDRESS'') [])"
    using loadConfig_Inr [of L op env config] by (simp add: names order)
  have pool: "\<not> truthy (env (?P @ ''LENDING_POOL_ADDRESS'')) \<and> \<not> truthy (env ''LENDING_POOL_ADDRESS'') \<longrightarrow>
      loadConfig L op env = Inl (''Missing required environment variable: '' @ ?P
        @ ''LENDING_POOL_ADDRESS (or fallback LENDING_POOL_ADDRESS)'')"
    by (simp add: names loadConfig_def Let_def loadConfig_isLocal js_or_def missingVariable_def
        networkPrefix_def)
  have token: "(truthy (env (?P @ ''LENDING_POOL_ADDRESS'')) \<or> truthy (env ''LENDING_POOL_ADDRESS''))
        \<and> \<not> truthy (env (?P @ ''TOKEN_ADDRESS'')) \<and> \<not> truthy (env ''TOKEN_ADDRESS'') \<longrightarrow>
      loadConfig L op env = Inl (''Missing required environment variable: '' @ ?P
        @ ''TOKEN_ADDRESS (or fallback TOKEN_ADDRESS)'')"
    by (simp add: names loadConfig_def Let_def loadConfig_isLocal js_or_def missingVariable_def
        networkPrefix_def)
  have both: "(truthy (env (?P @ ''LENDING_POOL_ADDRESS'')) \<or> truthy (env ''LENDING_POOL_ADDRESS''))
        \<and> (truthy (env (?P @ ''TOKEN_ADDRESS'')) \<or> truthy (env ''TOKEN_ADDRESS'')) \<longrightarrow>
      (\<exists>c. loadConfig L op env = Inr c)"
    by (simp add: names loadConfig_def Let_def loadConfig_isLocal js_or_def)
  show ?thesis
    using ok pool token both by blast
qed

theorem address_resolution_order_witness:
  "loadConfig demoLib OpSupply [''NETWORK'' \<mapsto> ''sepolia'', ''LENDING_POOL_ADDRESS'' \<mapsto> ''0xPool'']
     = Inl ''Missing required environment variable: SEPOLIA_TOKEN_ADDRESS (or fallback TOKEN_ADDRESS)''
   \<and> loadConfig demoLib OpSupply [''SEPOLIA_LENDING_POOL_ADDRESS'' \<mapsto> ''0xOther'']
     = Inl ''Missing required environment variable: LOCAL_LENDING_POOL_ADDRESS (or fallback LENDING_POOL_ADDRESS)''
   \<and> (\<exists>c. loadConfig demoLib OpSupply sepoliaEnv = Inr c \<and> lendingPoolAddress c = ''0xPool''
          \<and> tokenAddress c = ''0xToken'' \<and> dataProviderAddress c = [])"
proof -
  let ?e1 = "[''NETWORK'' \<mapsto> ''sepolia'', ''LENDING_POOL_ADDRESS'' \<mapsto> ''0xPool''] :: env"
  let ?e2 = "[''SEPOLIA_LENDING_POOL_ADDRESS'' \<mapsto> ''0xOther''] :: env"
  have p1: "networkPrefix ?e1 = ''SEPOLIA_''" and p2: "networkPrefix ?e2 = ''LOCAL_''"
    and p3: "networkPrefix sepoliaEnv = ''SEPOLIA_''"
    by (simp_all add: networkPrefix_def isLocalNetwork_def or_default_def sepoliaEnv_def)
  have a: "loadConfig demoLib OpSupply ?e1
     = Inl ''Missing required environment variable: SEPOLIA_TOKEN_ADDRESS (or fallback TOKEN_ADDRESS)''"
    using address_resolution_order [of demoLib OpSupply ?e1] by (simp add: p1 truthy_def)
  have b: "loadConfig demoLib OpSupply ?e2
     = Inl ''Missing required environment variable: LOCAL_LENDING_POOL_ADDRESS (or fallback LENDING_POOL_ADDRESS)''"
    using address_resolution_order [of demoLib OpSupply ?e2] by (simp add: p2 truthy_def)
  have vars: "sepoliaEnv ''SEPOLIA_LENDING_POOL_ADDRESS'' = Some ''0xPool''"
    "sepoliaEnv ''LENDING_POOL_ADDRESS'' = None"
    "sepoliaEnv ''SEPOLIA_TOKEN_ADDRESS'' = None"
    "sepoliaEnv ''TOKEN_ADDRESS'' = Some ''0xToken''"
    "sepoliaEnv ''SEPOLIA_DATA_PROVIDER_ADDRESS'' = None"
    "sepoliaEnv ''DATA_PROVIDER_ADDRESS'' = None"
    by (simp_all add: sepoliaEnv_def)
  obtain c where c: "loadConfig demoLib OpSupply sepoliaEnv = Inr c"
    using address_resolution_order [of demoLib OpSupply sepoliaEnv]
    by (auto simp add: p3 vars truthy_def)
  have "lendingPoolAddress c = ''0xPool'' \<and> tokenAddress c = ''0xToken'' \<and> dataProviderAddress c = []"
    using address_resolution_order [of demoLib OpSupply sepoliaEnv c] c
    by (simp add: p3 vars or_default_def)
  with a b c show ?thesis
    by blast
qed

section \<open>Health factor display\<close>

text \<open>
  C4, as stated, fails in both halves. A health factor equal to the threshold is printed as
  a number, since the test is \<^verbatim>\<open>gt\<close>; and the health factor line is chosen from the
  \<^verbatim>\<open>healthFactor\<close> field alone, so a snapshot without debt whose field reads 2.0 is printed
  as a number.
\<close>

theorem health_factor_display_counterexample:
  "renderHealthFactor infiniteThreshold = HealthFactorValue infiniteThreshold
   \<and> totalDebtETH zeroDebtAccount = 0
   \<and> renderHealthFactor (healthFactor zeroDebtAccount) = HealthFactorValue (2 * 10 ^ 18)"
  by (simp add: renderHealthFactor_def zeroDebtAccount_def infiniteThreshold_def)

text \<open>
  C4, amended. A health factor strictly above the threshold \<open>1000000 * 10 ^ 18\<close> is printed as
  infinite (no debt) and one strictly below it as its value. The health factor line does not
  look at the debt. It is the summary after a repayment that reports the infinite state for
  every snapshot whose total debt is zero, whatever its health factor field; after a
  withdrawal the same is reported when there was debt before and none after.
\<close>

theorem health_factor_display:
  "(infiniteThreshold < hf \<longrightarrow> renderHealthFactor hf = HealthFactorInfinite)
   \<and> (hf < infiniteThreshold \<longrightarrow> renderHealthFactor hf = HealthFactorValue hf)
   \<and> (totalDebtETH accountDataAfter = 0 \<longrightarrow>
        hd (repay_improvement accountDataBefore accountDataAfter) = AllDebtRepaidInfinite)
   \<and> (0 < totalDebtETH accountDataBefore \<and> totalDebtETH accountDataAfter = 0 \<longrightarrow>
        hd (withdraw_change accountDataBefore accountDataAfter) = DebtFullyRepaidInfinite)"
  by (simp add: renderHealthFactor_def repay_improvement_def withdraw_change_def)

theorem health_factor_display_witness:
  "renderHealthFactor (nat MaxUint256) = HealthFactorInfinite
   \<and> renderHealthFactor (2 * 10 ^ 18) = HealthFactorValue (2 * 10 ^ 18)
   \<and> hd (repay_improvement (demoAccount (demoWorld\<lparr>variableDebtOf := 7\<rparr>)) zeroDebtAccount)
       = AllDebtRepaidInfinite
   \<and> hd (withdraw_change (demoAccount (demoWorld\<lparr>variableDebtOf := 7\<rparr>)) zeroDebtAccount)
       = DebtFullyRepaidInfinite"
proof -
  have above: "infiniteThreshold < nat MaxUint256"
    by (simp add: infiniteThreshold_def MaxUint256_def)
  have below: "(2 * 10 ^ 18 :: nat) < infiniteThreshold"
    by (simp add: infiniteThreshold_def)
  have none: "totalDebtETH zeroDebtAccount = 0"
    by (simp add: zeroDebtAccount_def)
  have some: "0 < totalDebtETH (demoAccount (demoWorld\<lparr>variableDebtOf := 7\<rparr>))"
    by (simp add: demoAccount_def demoWorld_def)
  show ?thesis
    using health_factor_display [of "nat MaxUint256" zeroDebtAccount
            "demoAccount (demoWorld\<lparr>variableDebtOf := 7\<rparr>)"]
      health_factor_display [of "2 * 10 ^ 18" zeroDebtAccount
            "demoAccount (demoWorld\<lparr>variableDebtOf := 7\<rparr>)"]
      above below none some
    by blast
qed

section \<open>Classification of failure messages\<close>

lemma includesStr_iff: "includesStr s sub \<longleftrightarrow> (\<exists>p q. s = p @ sub @ q)"
proof (induction s)
  case Nil
  then show ?case by auto
next
  case (Cons c cs)
  show ?case
  proof
    assume "includesStr (c # cs) sub"
    then consider "take (length sub) (c # cs) = sub" | "includesStr cs sub"
      by auto
    then show "\<exists>p q. c # cs = p @ sub @ q"
    proof cases
      case 1
      then have "c # cs = [] @ sub @ drop (length sub) (c # cs)"
        by (metis append_Nil append_take_drop_id)
      then show ?thesis by blast
    next
      case 2
      then obtain p q where "cs = p @ sub @ q"
        using Cons.IH by blast
      then have "c # cs = (c # p) @ sub @ q"
        by simp
      then show ?thesis by blast
    qed
  next
    assume "\<exists>p q. c # cs = p @ sub @ q"
    then obtain p q where pq: "c # cs = p @ sub @ q"
      by blast
    show "includesStr (c # cs) sub"
    proof (cases p)
      case Nil
      then have "take (length sub) (c # cs) = sub"
        using pq by simp
      then show ?thesis by simp
    next
      case (Cons a p')
      then have "cs = p' @ sub @ q"
        using pq by simp
      then have "includesStr cs sub"
        using Cons.IH by blast
      then show ?thesis by simp
    qed
  qed
qed

lemma failed_run:
  "failed what kind m w
     = ([Out (Text what), Out (ErrorMessage m)] @ map Out (hintLines (kind m)), w, Return)"
  by (simp add: failed_def seq_def andThen_def say_def sayAll_def returnNow_def)

lemma classify_Unrecognized:
  "(\<forall>entry \<in> set table. \<not> includesStr m (fst entry)) \<Longrightarrow> classify table m = Unrecognized"
  by (induction table) (auto simp: classify_def)

text \<open>
  C6. The kind printed by each of the three \<^verbatim>\<open>catch\<close> blocks is the lookup of the message in
  the block's fixed table of codes, by occurrence of the code as a substring; a message in
  which no code of the table occurs is \<open>Unrecognized\<close> and gets no hint; and in every case the
  block prints the raw message, before any hint, and returns. In particular a rejected
  borrow call prints the message of the rejection.
\<close>

theorem classification_keeps_raw_message:
  "borrow_kind m = classify borrowTable m
   \<and> repay_kind m = classify repayTable m
   \<and> withdraw_kind m = classify withdrawTable m
   \<and> (includesStr m code \<longleftrightarrow> (\<exists>p q. m = p @ code @ q))
   \<and> ((\<forall>entry \<in> set table. \<not> includesStr m (fst entry)) \<longrightarrow> classify table m = Unrecognized)
   \<and> failed what kind m w
       = ([Out (Text what), Out (ErrorMessage m)] @ map Out (hintLines (kind m)), w, Return)
   \<and> (kind m = Unrecognized \<longrightarrow>
        failed what kind m w = ([Out (Text what), Out (ErrorMessage m)], w, Return))
   \<and> (submit C w (TxBorrow (lendingPoolAddress config) user1 (tokenAddress config) amountWei
                    (interestRateMode config) 0 user1) = Inl m \<longrightarrow>
        borrow_action C config user1 amountWei w
          = ([Submitted (TxBorrow (lendingPoolAddress config) user1 (tokenAddress config) amountWei
                           (interestRateMode config) 0 user1),
              Out (Text ''Borrow failed!''), Out (ErrorMessage m)]
             @ map Out (hintLines (borrow_kind m)), w, Return))"
proof -
  have tables: "borrow_kind m = classify borrowTable m" "repay_kind m = classify repayTable m"
    "withdraw_kind m = classify withdrawTable m"
    by (simp_all add: borrow_kind_def repay_kind_def withdraw_kind_def classify_def
        borrowTable_def repayTable_def withdrawTable_def)
  have substring: "includesStr m code \<longleftrightarrow> (\<exists>p q. m = p @ code @ q)"
    by (rule includesStr_iff)
  have unmatched: "(\<forall>entry \<in> set table. \<not> includesStr m (fst entry)) \<longrightarrow>
        classify table m = Unrecognized"
    using classify_Unrecognized [of table m] by (rule impI)
  have raw: "failed what kind m w
       = ([Out (Text what), Out (ErrorMessage m)] @ map Out (hintLines (kind m)), w, Return)"
    by (rule failed_run)
  have silent: "kind m = Unrecognized \<longrightarrow>
        failed what kind m w = ([Out (Text what), Out (ErrorMessage m)], w, Return)"
    by (simp add: failed_run hintLines_def)
  have rejected: "submit C w (TxBorrow (lendingPoolAddress config) user1 (tokenAddress config)
                    amountWei (interestRateMode config) 0 user1) = Inl m \<longrightarrow>
        borrow_action C config user1 amountWei w
          = ([Submitted (TxBorrow (lendingPoolAddress config) user1 (tokenAddress config) amountWei
                           (interestRateMode config) 0 user1),
              Out (Text ''Borrow failed!''), Out (ErrorMessage m)]
             @ map Out (hintLines (borrow_kind m)), w, Return)"
    by (simp add: borrow_action_def tryCatch_def seq_def andThen_def send_def failed_run)
  show ?thesis
    by (intro conjI) (fact tables substring unmatched raw silent rejected)+
qed

theorem classification_keeps_raw_message_witness:
  "classify repayTable ''execution reverted'' = Unrecognized
   \<and> failed ''Repayment failed!'' repay_kind ''execution reverted'' demoWorld
       = ([Out (Text ''Repayment failed!''), Out (ErrorMessage ''execution reverted'')],
          demoWorld, Return)
   \<and> borrow_action demoChain
        \<lparr> network = ''sepolia'', lendingPoolAddress = ''0xPool'', dataProviderAddress = [],
          tokenName = ''TOKEN'', tokenAddress = ''0xToken'', tokenDecimals = Some 18,
          amount = ''100'', interestRateMode = Some 2, timeDelay = Some 86400 \<rparr>
        ''0xUser'' 100 demoWorld
       = ([Submitted (TxBorrow ''0xPool'' ''0xUser'' ''0xToken'' 100 (Some 2) 0 ''0xUser''),
           Out (Text ''Borrow failed!''),
           Out (ErrorMessage ''VM Exception while processing transaction: revert 11''),
           Out (Hint InvalidCollateralReserve)], demoWorld, Return)"
proof -
  let ?m = "''execution reverted''"
  let ?c = "\<lparr> network = ''sepolia'', lendingPoolAddress = ''0xPool'', dataProviderAddress = [],
          tokenName = ''TOKEN'', tokenAddress = ''0xToken'', tokenDecimals = Some 18,
          amount = ''100'', interestRateMode = Some 2, timeDelay = Some 86400 \<rparr>"
  let ?r = "''VM Exception while processing transaction: revert 11''"
  have none: "\<forall>entry \<in> set repayTable. \<not> includesStr ?m (fst entry)"
    by (simp add: repayTable_def)
  have unrecognized: "repay_kind ?m = Unrecognized"
    by (simp add: repay_kind_def)
  have rejected: "submit demoChain demoWorld
      (TxBorrow (lendingPoolAddress ?c) ''0xUser'' (tokenAddress ?c) 100 (interestRateMode ?c) 0
         ''0xUser'') = Inl ?r"
    by (simp add: demoChain_def demoSubmit_def demoWorld_def)
  have hint: "hintLines (borrow_kind ?r) = [Hint InvalidCollateralReserve]"
    by (simp add: borrow_kind_def hintLines_def)
  have a: "classify repayTable ?m = Unrecognized"
    using classification_keeps_raw_message [of ?m "''5''" repayTable, THEN conjunct2,
        THEN conjunct2, THEN conjunct2, THEN conjunct2, THEN conjunct1] none
    by (rule mp)
  have b: "failed ''Repayment failed!'' repay_kind ?m demoWorld
       = ([Out (Text ''Repayment failed!''), Out (ErrorMessage ?m)], demoWorld, Return)"
    using classification_keeps_raw_message [of ?m "''5''" repayTable "''Repayment failed!''"
        repay_kind demoWorld, THEN conjunct2, THEN conjunct2, THEN conjunct2, THEN conjunct2,
        THEN conjunct2, THEN conjunct2, THEN conjunct1] unrecognized
    by (rule mp)
  have c: "borrow_action demoChain ?c ''0xUser'' 100 demoWorld
       = ([Submitted (TxBorrow (lendingPoolAddress ?c) ''0xUser'' (tokenAddress ?c) 100
                        (interestRateMode ?c) 0 ''0xUser''),
           Out (Text ''Borrow failed!''), Out (ErrorMessage ?r)]
          @ map Out (hintLines (borrow_kind ?r)), demoWorld, Return)"
    using classification_keeps_raw_message [of ?r "''5''" repayTable "''Repayment failed!''"
        repay_kind demoWorld demoChain ?c "''0xUser''" 100, THEN conjunct2, THEN conjunct2,
        THEN conjunct2, THEN conjunct2, THEN conjunct2, THEN conjunct2, THEN conjunct2] rejected
    by (rule mp)
  show ?thesis
    using a b c by (simp add: hint)
qed

section \<open>Balances\<close>

lemma balanceLoop_total:
  "Balances n s a d wal dep tot \<in> set (fst (balanceLoop C w pool user i reserves))
   \<Longrightarrow> tot = wal + dep"
proof (induction reserves arbitrary: i)
  case Nil
  then show ?case by simp
next
  case (Cons reserve rest)
  obtain ls hasAny where rest: "balanceLoop C w pool user (i + 1) rest = (ls, hasAny)"
    by (cases "balanceLoop C w pool user (i + 1) rest")
  have IH: "Balances n s a d wal dep tot \<in> set ls \<Longrightarrow> tot = wal + dep"
    using Cons.IH [of "i + 1"] rest by simp
  show ?case
  proof (cases "readBalance C w pool user reserve")
    case (Inl e)
    then show ?thesis
      using Cons.prems rest IH by auto
  next
    case (Inr b)
    have "total b = wallet b + deposited b"
      using Inr by (auto simp: readBalance_def Let_def split: prod.splits sum.splits)
    then show ?thesis
      using Cons.prems rest IH Inr by (auto split: if_splits)
  qed
qed

text \<open>
  C8. Every balance the aggregator produces has \<open>total = wallet + deposited\<close> on natural
  numbers, where the wallet is the token's \<^verbatim>\<open>balanceOf\<close> and the deposit is the yield token's
  \<^verbatim>\<open>balanceOf\<close>, taken as 0 when the reserve data cannot be read, when the yield token is the
  zero address, or when its balance cannot be read; and every balance line the loop prints
  shows such a total.
\<close>

theorem total_is_wallet_plus_deposited:
  "(readBalance C w pool user reserve = Inr b \<longrightarrow>
      total b = wallet b + deposited b
      \<and> balanceOf C w (snd reserve) user = Inr (wallet b)
      \<and> deposited b =
          (case getReserveData C w pool (snd reserve) of
             Inl e \<Rightarrow> 0
           | Inr reserveData \<Rightarrow>
               if aTokenAddress reserveData = AddressZero then 0
               else (case balanceOf C w (aTokenAddress reserveData) user of
                       Inl e \<Rightarrow> 0 | Inr balance \<Rightarrow> balance)))
   \<and> (Balances n s a d wal dep tot \<in> set (fst (balanceLoop C w pool user i reserves)) \<longrightarrow>
        tot = wal + dep)"
proof -
  have "readBalance C w pool user reserve = Inr b \<longrightarrow>
      total b = wallet b + deposited b
      \<and> balanceOf C w (snd reserve) user = Inr (wallet b)
      \<and> deposited b = readDeposited C w pool user (snd reserve)"
    by (auto simp: readBalance_def Let_def split: prod.splits sum.splits)
  then show ?thesis
    using balanceLoop_total [of n s a d wal dep tot C w pool user i reserves]
    by (auto simp: readDeposited_def split: sum.splits)
qed

theorem total_is_wallet_plus_deposited_witness:
  "readBalance demoChain (demoWorld\<lparr>depositOf := 30\<rparr>) ''0xPool'' ''0xUser'' (''DAI'', ''0xToken'')
     = Inr \<lparr> tbSymbol = ''DAI'', tbDecimals = 18, wallet = 500 * 10 ^ 18, deposited = 30,
             total = 500 * 10 ^ 18 + 30 \<rparr>
   \<and> Balances 1 ''DAI'' ''0xToken'' 18 (500 * 10 ^ 18) 30 (500 * 10 ^ 18 + 30)
       \<in> set (fst (balanceLoop demoChain (demoWorld\<lparr>depositOf := 30\<rparr>) ''0xPool'' ''0xUser'' 0
                     [(''DAI'', ''0xToken'')]))
   \<and> (500 * 10 ^ 18 + 30 :: nat) = 500 * 10 ^ 18 + 30"
proof -
  let ?w = "demoWorld\<lparr>depositOf := 30\<rparr>"
  let ?b = "\<lparr> tbSymbol = ''DAI'', tbDecimals = 18, wallet = 500 * 10 ^ 18, deposited = 30,
             total = 500 * 10 ^ 18 + 30 \<rparr>"
  have r: "readBalance demoChain ?w ''0xPool'' ''0xUser'' (''DAI'', ''0xToken'') = Inr ?b"
    by (simp add: readBalance_def readMetadata_def readDeposited_def demoChain_def demoWorld_def
        AddressZero_def)
  have l: "Balances 1 ''DAI'' ''0xToken'' 18 (500 * 10 ^ 18) 30 (500 * 10 ^ 18 + 30)
       \<in> set (fst (balanceLoop demoChain ?w ''0xPool'' ''0xUser'' 0 [(''DAI'', ''0xToken'')]))"
    by (simp add: r)
  show ?thesis
    using total_is_wallet_plus_deposited [of demoChain ?w "''0xPool''" "''0xUser''"
        "(''DAI'', ''0xToken'')" ?b 1 "''DAI''" "''0xToken''" 18 "500 * 10 ^ 18" 30
        "500 * 10 ^ 18 + 30" 0 "[(''DAI'', ''0xToken'')]"] r l
    by blast
qed

section \<open>Reasoning about runs\<close>

lemmas script_defs = andThen_def seq_def yield_def skip_def returnNow_def attempt_def await_def
  send_def say_def sayAll_def tryCatch_def

lemma submitted_append: "submitted (xs @ ys) = submitted xs @ submitted ys"
  by (induction xs rule: submitted.induct) auto

lemma submitted_map_Out: "submitted (map Out ls) = []"
  by (induction ls) auto

lemma andThen_Next:
  "m w = (tr, w', Next a) \<Longrightarrow> andThen m k w = (tr @ fst (k a w'), snd (k a w'))"
  by (simp add: andThen_def split: prod.splits)

lemma andThen_Return: "m w = (tr, w', Return) \<Longrightarrow> andThen m k w = (tr, w', Return)"
  by (simp add: andThen_def)

lemma andThen_Throw: "m w = (tr, w', Throw e) \<Longrightarrow> andThen m k w = (tr, w', Throw e)"
  by (simp add: andThen_def)

lemma seq_Next: "m w = (tr, w', Next a) \<Longrightarrow> seq m k w = (tr @ fst (k w'), snd (k w'))"
  by (simp add: seq_def andThen_Next)

lemma seq_Return: "m w = (tr, w', Return) \<Longrightarrow> seq m k w = (tr, w', Return)"
  by (simp add: seq_def andThen_Return)

lemma seq_Throw: "m w = (tr, w', Throw e) \<Longrightarrow> seq m k w = (tr, w', Throw e)"
  by (simp add: seq_def andThen_Throw)

lemma attempt_Next: "attempt r w = (tr, w', Next a) \<Longrightarrow> r = Inr a \<and> tr = [] \<and> w' = w"
  by (auto simp: attempt_def split: sum.splits)

text \<open>Rules for the calls a composed script submits.\<close>

lemma txsIn_andThen:
  assumes "txsIn P (m w)" and "\<And>tr w' a. m w = (tr, w', Next a) \<Longrightarrow> txsIn P (k a w')"
  shows "txsIn P (andThen m k w)"
proof -
  obtain tr w' c where r: "m w = (tr, w', c)"
    by (cases "m w") auto
  show ?thesis
  proof (cases c)
    case (Next a)
    then show ?thesis
      using assms r by (simp add: andThen_Next txsIn_def submitted_append)
  next
    case Return
    then show ?thesis
      using assms(1) r by (simp add: andThen_Return txsIn_def)
  next
    case (Throw e)
    then show ?thesis
      using assms(1) r by (simp add: andThen_Throw txsIn_def)
  qed
qed

lemma txsIn_seq:
  assumes "txsIn P (m w)" and "\<And>tr w' a. m w = (tr, w', Next a) \<Longrightarrow> txsIn P (k w')"
  shows "txsIn P (seq m k w)"
  unfolding seq_def using assms by (rule txsIn_andThen)

lemma txsIn_tryCatch:
  assumes "txsIn P (body w)"
    and "\<And>tr w' e. body w = (tr, w', Throw e) \<Longrightarrow> txsIn P (handler e w')"
  shows "txsIn P (tryCatch body handler w)"
proof -
  obtain tr w' c where r: "body w = (tr, w', c)"
    by (cases "body w") auto
  show ?thesis
  proof (cases c)
    case (Throw e)
    then show ?thesis
      using assms r by (auto simp add: tryCatch_def txsIn_def submitted_append split: prod.splits)
  qed (use assms(1) r in \<open>simp_all add: tryCatch_def txsIn_def\<close>)
qed

lemma txsIn_basic:
  "txsIn P (await f w)" "txsIn P (attempt r w)" "txsIn P (say l w)" "txsIn P (sayAll ls w)"
  "txsIn P (yield a w)" "txsIn P (skip w)" "txsIn P (returnNow w)"
  by (simp_all add: txsIn_def script_defs submitted_map_Out split: sum.splits)

lemma txsIn_send: "txsIn P (send C t w) = P t"
  by (simp add: txsIn_def send_def split: sum.splits)

lemma txsIn_failed: "txsIn P (failed what kind m w)"
  by (simp add: txsIn_def failed_run submitted_map_Out)

lemma txsIn_if:
  "(b \<Longrightarrow> txsIn P (m w)) \<Longrightarrow> (\<not> b \<Longrightarrow> txsIn P (n w)) \<Longrightarrow> txsIn P ((if b then m else n) w)"
  by simp

lemmas txsIn_rules = txsIn_andThen txsIn_seq txsIn_tryCatch txsIn_if txsIn_basic txsIn_failed

text \<open>The shared opening changes nothing and submits nothing.\<close>

lemma prologue_ok:
  assumes "loadConfig L op env = Inr config" "getSigners C w = Inr signers"
    "selectUser (isLocalNetwork env) signers = Inr user1"
    "getContractAt C w ''ILendingPool'' (lendingPoolAddress config) = Inr ()"
    "getContractAt C w IERC20 (tokenAddress config) = Inr ()"
    "balanceOf C w (tokenAddress config) user1 = Inr bal"
    "formatUnits L (tokenDecimals config) = Inr ()"
  shows "prologue L C op env w = ([], w, Next (config, user1, bal))"
  using assms by (simp add: prologue_def script_defs)

lemma prologue_cases:
  "(\<exists>e. prologue L C op env w = ([], w, Throw e)) \<or>
   (\<exists>config signers user1 bal. prologue L C op env w = ([], w, Next (config, user1, bal))
      \<and> loadConfig L op env = Inr config \<and> getSigners C w = Inr signers
      \<and> selectUser (isLocalNetwork env) signers = Inr user1)"
  by (simp add: prologue_def script_defs split: sum.splits)

lemma prologue_Next:
  assumes "prologue L C op env w = (tr, w', Next (config, user1, bal))"
  shows "tr = [] \<and> w' = w \<and> loadConfig L op env = Inr config"
  using assms prologue_cases [of L C op env w] by auto

lemma prologue_fails:
  "loadConfig L op env = Inl m \<Longrightarrow> prologue L C op env w = ([], w, Throw m)"
  by (simp add: prologue_def script_defs)

lemma txsIn_prologue: "txsIn P (prologue L C op env w)"
  using prologue_cases [of L C op env w] by (auto simp: txsIn_def)

lemma demo_prologue:
  "prologue demoLib demoChain op sepoliaEnv w
     = ([], w, Next (\<lparr> network = ''sepolia'', lendingPoolAddress = ''0xPool'',
          dataProviderAddress = [], tokenName = ''TOKEN'', tokenAddress = ''0xToken'',
          tokenDecimals = Some 18, amount = snd (amountVariable op),
          interestRateMode = (if op = OpBorrow \<or> op = OpRepay then Some 2 else None),
          timeDelay = Some 86400 \<rparr>, ''0xDeployer'', walletOf w))"
proof -
  have live: "\<not> isLocalNetwork sepoliaEnv"
    by (simp add: isLocalNetwork_def sepoliaEnv_def or_default_def)
  show ?thesis
    by (rule prologue_ok [OF loadConfig_sepoliaEnv, where signers = "[''0xDeployer'', ''0xUser'']"])
       (simp_all add: live selectUser_def demoChain_def demoLib_def)
qed

section \<open>Early exits of repay and withdraw\<close>

lemma repay_checkDebt_returns:
  assumes "dataProviderAddress config \<noteq> []"
    and "getContractAt C w ''AaveProtocolDataProvider'' (dataProviderAddress config) = Inr ()"
    and "getUserReserveData C w (dataProviderAddress config) (tokenAddress config) user1 = Inr ur"
    and "currentStableDebt ur + currentVariableDebt ur = 0
         \<or> (if interestRateMode config = Some 1 then currentStableDebt ur
             else currentVariableDebt ur) = 0"
  shows "\<exists>ls. repay_checkDebt C config user1 w = (map Out ls, w, Return)"
proof (cases "currentStableDebt ur + currentVariableDebt ur = 0")
  case True
  then have "repay_checkDebt C config user1 w = (map Out [Text ''No debt to repay!''], w, Return)"
    using assms(1-3) by (simp add: repay_checkDebt_def script_defs)
  then show ?thesis by blast
next
  case False
  then have "repay_checkDebt C config user1 w
      = (map Out [Text (''No '' @ (if interestRateMode config = Some 1 then ''stable''
                                    else ''variable'') @ '' debt to repay!''),
                  Text ''Change INTEREST_RATE_MODE in .env to match your debt type''], w, Return)"
    using assms by (auto simp add: repay_checkDebt_def script_defs Let_def split: if_splits)
  then show ?thesis by blast
qed

lemma withdraw_checkDeposit_returns:
  assumes "getReserveData C w (lendingPoolAddress config) (tokenAddress config) = Inr reserveData"
    and "balanceOf C w (aTokenAddress reserveData) user1 = Inr 0"
  shows "\<exists>tr c. withdraw_checkDeposit C config user1 w = (tr, w, c) \<and> submitted tr = []
           \<and> c \<noteq> Next ()"
  using assms by (simp add: withdraw_checkDeposit_def script_defs split: sum.splits)

lemma ends_without_calls:
  assumes "\<And>config' user1' bal. prologue L C op env w = ([], w, Next (config', user1', bal))
             \<Longrightarrow> \<exists>tr c. body config' user1' bal w = (tr, w, c) \<and> submitted tr = [] \<and> c \<noteq> Next ()"
  shows "submitted (fst (andThen (prologue L C op env)
                           (\<lambda>(config, user1, bal). seq (body config user1 bal) (rest config user1 bal)) w)) = []
         \<and> fst (snd (andThen (prologue L C op env)
                           (\<lambda>(config, user1, bal). seq (body config user1 bal) (rest config user1 bal)) w)) = w
         \<and> snd (snd (andThen (prologue L C op env)
                           (\<lambda>(config, user1, bal). seq (body config user1 bal) (rest config user1 bal)) w)) \<noteq> Next ()"
proof -
  consider e where "prologue L C op env w = ([], w, Throw e)"
    | config' user1' bal where "prologue L C op env w = ([], w, Next (config', user1', bal))"
    using prologue_cases [of L C op env w] by blast
  then show ?thesis
  proof cases
    case 1
    then show ?thesis
      by (simp add: andThen_Throw)
  next
    case 2
    then obtain tr c where b: "body config' user1' bal w = (tr, w, c)" "submitted tr = []"
        "c \<noteq> Next ()"
      using assms by blast
    then show ?thesis
      using 2 by (cases c) (simp_all add: andThen_Next seq_Return seq_Throw)
  qed
qed

lemma repay_checkDebt_unanswered:
  assumes "dataProviderAddress config \<noteq> []"
    and "getContractAt C w ''AaveProtocolDataProvider'' (dataProviderAddress config) = Inl e
         \<or> getContractAt C w ''AaveProtocolDataProvider'' (dataProviderAddress config) = Inr ()
           \<and> getUserReserveData C w (dataProviderAddress config) (tokenAddress config) user1 = Inl e"
  shows "repay_checkDebt C config user1 w
           = ([Out (Diagnostic ''Could not fetch debt data:'' e)], w, Next ())"
  using assms by (auto simp add: repay_checkDebt_def script_defs)

lemma silent_prologue:
  "prologue demoLib silentProviderChain OpRepay providerEnv w
     = ([], w, Next (\<lparr> network = ''sepolia'', lendingPoolAddress = ''0xPool'',
          dataProviderAddress = ''0xProvider'', tokenName = ''TOKEN'', tokenAddress = ''0xToken'',
          tokenDecimals = Some 18, amount = ''0'', interestRateMode = Some 2,
          timeDelay = Some 86400 \<rparr>, ''0xDeployer'', walletOf w))"
proof -
  have live: "\<not> isLocalNetwork providerEnv"
    by (simp add: isLocalNetwork_def providerEnv_def sepoliaEnv_def or_default_def)
  have cfg: "loadConfig demoLib OpRepay providerEnv = Inr \<lparr> network = ''sepolia'',
          lendingPoolAddress = ''0xPool'',
          dataProviderAddress = ''0xProvider'', tokenName = ''TOKEN'', tokenAddress = ''0xToken'',
          tokenDecimals = Some 18, amount = ''0'', interestRateMode = Some 2,
          timeDelay = Some 86400 \<rparr>"
    by (simp add: loadConfig_def providerEnv_def sepoliaEnv_def or_default_def js_or_def
          truthy_def amountVariable_def demoLib_def wholeNumber_def)
  show ?thesis
    by (rule prologue_ok [OF cfg, where signers = "[''0xDeployer'', ''0xUser'']"])
       (simp_all add: live selectUser_def silentProviderChain_def demoChain_def demoLib_def)
qed

text \<open>
  C10, as stated, fails for repay when the configured data provider does not answer: the
  \<^verbatim>\<open>catch\<close> around the debt check prints a warning and the run goes on. Against a pool in which
  the user has no debt at all, the run submits the approve call and the repay call.
\<close>

theorem unanswered_provider_counterexample:
  "providerEnv ''DATA_PROVIDER_ADDRESS'' = Some ''0xProvider''
   \<and> getUserAccountData silentProviderChain demoWorld ''0xPool'' ''0xDeployer''
       = Inr (demoAccount demoWorld)
   \<and> totalDebtETH (demoAccount demoWorld) = 0
   \<and> submitted (fst (repay_main demoLib silentProviderChain providerEnv demoWorld))
       = [TxApprove ''0xToken'' ''0xDeployer'' ''0xPool'' MaxUint256,
          TxRepay ''0xPool'' ''0xDeployer'' ''0xToken'' MaxUint256 (Some 2) ''0xDeployer'']"
proof -
  have "submitted (fst (repay_main demoLib silentProviderChain providerEnv demoWorld))
       = [TxApprove ''0xToken'' ''0xDeployer'' ''0xPool'' MaxUint256,
          TxRepay ''0xPool'' ''0xDeployer'' ''0xToken'' MaxUint256 (Some 2) ''0xDeployer'']"
    unfolding repay_main_def
    by (simp add: andThen_Next [where m = "prologue demoLib silentProviderChain OpRepay providerEnv",
          OF silent_prologue])
       (simp add: script_defs repay_checkDebt_def repayAmountWei_def repay_action_def failed_def
          silentProviderChain_def demoChain_def demoSubmit_def demoWorld_def submitted_map_Out)
  then show ?thesis
    by (simp add: providerEnv_def silentProviderChain_def demoChain_def demoAccount_def
        demoWorld_def)
qed

text \<open>
  C10, amended. With a data provider configured that answers, a repay run for a user whose
  debts in the reserve sum to zero, or whose debt in the selected rate mode is zero, ends
  before its approve call: it submits no call, leaves the state of the chain as it found it,
  and does not reach the end of \<^verbatim>\<open>main\<close>. So does a withdraw run for a user whose yield-token
  balance is zero, whether or not a data provider is configured. When the data provider does
  not answer, the debt check of repay prints a warning and lets the run go on.
\<close>

theorem zero_position_ends_before_any_call:
  "(loadConfig L OpRepay env = Inr config \<and> getSigners C w = Inr signers
      \<and> selectUser (isLocalNetwork env) signers = Inr user1
      \<and> dataProviderAddress config \<noteq> []
      \<and> getContractAt C w ''AaveProtocolDataProvider'' (dataProviderAddress config) = Inr ()
      \<and> getUserReserveData C w (dataProviderAddress config) (tokenAddress config) user1 = Inr ur
      \<and> (currentStableDebt ur + currentVariableDebt ur = 0
          \<or> (if interestRateMode config = Some 1 then currentStableDebt ur
              else currentVariableDebt ur) = 0)
    \<longrightarrow> submitted (fst (repay_main L C env w)) = []
        \<and> fst (snd (repay_main L C env w)) = w
        \<and> snd (snd (repay_main L C env w)) \<noteq> Next ())
   \<and> (loadConfig L OpWithdraw env = Inr config \<and> getSigners C w = Inr signers
      \<and> selectUser (isLocalNetwork env) signers = Inr user1
      \<and> getReserveData C w (lendingPoolAddress config) (tokenAddress config) = Inr reserveData
      \<and> balanceOf C w (aTokenAddress reserveData) user1 = Inr 0
    \<longrightarrow> submitted (fst (withdraw_main L C env w)) = []
        \<and> fst (snd (withdraw_main L C env w)) = w
        \<and> snd (snd (withdraw_main L C env w)) \<noteq> Next ())
   \<and> (dataProviderAddress config \<noteq> []
      \<and> (getContractAt C w ''AaveProtocolDataProvider'' (dataProviderAddress config) = Inl e
          \<or> getContractAt C w ''AaveProtocolDataProvider'' (dataProviderAddress config) = Inr ()
            \<and> getUserReserveData C w (dataProviderAddress config) (tokenAddress config) user1 = Inl e)
    \<longrightarrow> repay_checkDebt C config user1 w
          = ([Out (Diagnostic ''Could not fetch debt data:'' e)], w, Next ()))"
proof (intro conjI impI)
  assume a: "loadConfig L OpRepay env = Inr config \<and> getSigners C w = Inr signers
      \<and> selectUser (isLocalNetwork env) signers = Inr user1
      \<and> dataProviderAddress config \<noteq> []
      \<and> getContractAt C w ''AaveProtocolDataProvider'' (dataProviderAddress config) = Inr ()
      \<and> getUserReserveData C w (dataProviderAddress config) (tokenAddress config) user1 = Inr ur
      \<and> (currentStableDebt ur + currentVariableDebt ur = 0
          \<or> (if interestRateMode config = Some 1 then currentStableDebt ur
              else currentVariableDebt ur) = 0)"
  have body: "\<exists>tr c. repay_checkDebt C config' user1' w = (tr, w, c) \<and> submitted tr = []
                \<and> c \<noteq> Next ()"
    if "prologue L C OpRepay env w = ([], w, Next (config', user1', bal))" for config' user1' bal
  proof -
    have "config' = config \<and> user1' = user1"
      using that a prologue_cases [of L C OpRepay env w] by auto
    then show ?thesis
      using repay_checkDebt_returns [of config C w user1 ur] a
      by (auto simp: submitted_map_Out)
  qed
  have "submitted (fst (repay_main L C env w)) = []
      \<and> fst (snd (repay_main L C env w)) = w
      \<and> snd (snd (repay_main L C env w)) \<noteq> Next ()"
    unfolding repay_main_def by (rule ends_without_calls) (rule body)
  then show "submitted (fst (repay_main L C env w)) = []"
    and "fst (snd (repay_main L C env w)) = w"
    and "snd (snd (repay_main L C env w)) \<noteq> Next ()"
    by simp_all
next
  assume a: "loadConfig L OpWithdraw env = Inr config \<and> getSigners C w = Inr signers
      \<and> selectUser (isLocalNetwork env) signers = Inr user1
      \<and> getReserveData C w (lendingPoolAddress config) (tokenAddress config) = Inr reserveData
      \<and> balanceOf C w (aTokenAddress reserveData) user1 = Inr 0"
  have body: "\<exists>tr c. withdraw_checkDeposit C config' user1' w = (tr, w, c) \<and> submitted tr = []
                \<and> c \<noteq> Next ()"
    if "prologue L C OpWithdraw env w = ([], w, Next (config', user1', bal))" for config' user1' bal
  proof -
    have "config' = config \<and> user1' = user1"
      using that a prologue_cases [of L C OpWithdraw env w] by auto
    then show ?thesis
      using withdraw_checkDeposit_returns [of C w config reserveData user1] a by blast
  qed
  have "submitted (fst (withdraw_main L C env w)) = []
      \<and> fst (snd (withdraw_main L C env w)) = w
      \<and> snd (snd (withdraw_main L C env w)) \<noteq> Next ()"
    unfolding withdraw_main_def by (rule ends_without_calls) (rule body)
  then show "submitted (fst (withdraw_main L C env w)) = []"
    and "fst (snd (withdraw_main L C env w)) = w"
    and "snd (snd (withdraw_main L C env w)) \<noteq> Next ()"
    by simp_all
next
  assume "dataProviderAddress config \<noteq> []
      \<and> (getContractAt C w ''AaveProtocolDataProvider'' (dataProviderAddress config) = Inl e
          \<or> getContractAt C w ''AaveProtocolDataProvider'' (dataProviderAddress config) = Inr ()
            \<and> getUserReserveData C w (dataProviderAddress config) (tokenAddress config) user1 = Inl e)"
  then show "repay_checkDebt C config user1 w
          = ([Out (Diagnostic ''Could not fetch debt data:'' e)], w, Next ())"
    using repay_checkDebt_unanswered [of config C w e user1] by blast
qed

lemma loadConfig_providerEnv:
  "loadConfig demoLib op providerEnv = Inr \<lparr>
     network = ''sepolia'', lendingPoolAddress = ''0xPool'', dataProviderAddress = ''0xProvider'',
     tokenName = ''TOKEN'', tokenAddress = ''0xToken'', tokenDecimals = Some 18,
     amount = snd (amountVariable op),
     interestRateMode = (if op = OpBorrow \<or> op = OpRepay then Some 2 else None),
     timeDelay = Some 86400 \<rparr>"
  by (cases op)
     (simp_all add: loadConfig_def providerEnv_def sepoliaEnv_def or_default_def js_or_def
        truthy_def amountVariable_def demoLib_def wholeNumber_def)

theorem zero_position_ends_before_any_call_witness:
  "submitted (fst (repay_main demoLib demoChain providerEnv demoWorld)) = []
   \<and> fst (snd (repay_main demoLib demoChain providerEnv demoWorld)) = demoWorld
   \<and> snd (snd (repay_main demoLib demoChain providerEnv demoWorld)) \<noteq> Next ()
   \<and> submitted (fst (withdraw_main demoLib demoChain sepoliaEnv demoWorld)) = []
   \<and> fst (snd (withdraw_main demoLib demoChain sepoliaEnv demoWorld)) = demoWorld
   \<and> snd (snd (withdraw_main demoLib demoChain sepoliaEnv demoWorld)) \<noteq> Next ()
   \<and> repay_checkDebt silentProviderChain
        \<lparr> network = ''sepolia'', lendingPoolAddress = ''0xPool'',
          dataProviderAddress = ''0xProvider'', tokenName = ''TOKEN'', tokenAddress = ''0xToken'',
          tokenDecimals = Some 18, amount = ''0'', interestRateMode = Some 2,
          timeDelay = Some 86400 \<rparr> ''0xDeployer'' demoWorld
       = ([Out (Diagnostic ''Could not fetch debt data:'' ''call revert exception'')],
          demoWorld, Next ())"
proof -
  let ?rc = "\<lparr> network = ''sepolia'', lendingPoolAddress = ''0xPool'',
     dataProviderAddress = ''0xProvider'', tokenName = ''TOKEN'', tokenAddress = ''0xToken'',
     tokenDecimals = Some 18, amount = ''0'', interestRateMode = Some 2,
     timeDelay = Some 86400 \<rparr>"
  let ?wc = "\<lparr> network = ''sepolia'', lendingPoolAddress = ''0xPool'',
     dataProviderAddress = [], tokenName = ''TOKEN'', tokenAddress = ''0xToken'',
     tokenDecimals = Some 18, amount = ''0'', interestRateMode = None,
     timeDelay = Some 86400 \<rparr>"
  let ?ur = "\<lparr> currentATokenBalance = 0, currentStableDebt = 0, currentVariableDebt = 0 \<rparr>"
  let ?rd = "\<lparr> aTokenAddress = ''0xAToken'', configuration = 0 \<rparr>"
  have live: "\<not> isLocalNetwork providerEnv" "\<not> isLocalNetwork sepoliaEnv"
    by (simp_all add: isLocalNetwork_def providerEnv_def sepoliaEnv_def or_default_def)
  have rc: "loadConfig demoLib OpRepay providerEnv = Inr ?rc"
    by (simp add: loadConfig_providerEnv amountVariable_def)
  have wc: "loadConfig demoLib OpWithdraw sepoliaEnv = Inr ?wc"
    by (simp add: loadConfig_sepoliaEnv amountVariable_def)
  have signers: "getSigners demoChain demoWorld = Inr [''0xDeployer'', ''0xUser'']"
    by (simp add: demoChain_def)
  have user: "selectUser (isLocalNetwork providerEnv) [''0xDeployer'', ''0xUser''] = Inr ''0xDeployer''"
    "selectUser (isLocalNetwork sepoliaEnv) [''0xDeployer'', ''0xUser''] = Inr ''0xDeployer''"
    by (simp_all add: live selectUser_def)
  have provider: "dataProviderAddress ?rc \<noteq> []"
    "getContractAt demoChain demoWorld ''AaveProtocolDataProvider'' (dataProviderAddress ?rc) = Inr ()"
    "getUserReserveData demoChain demoWorld (dataProviderAddress ?rc) (tokenAddress ?rc)
       ''0xDeployer'' = Inr ?ur"
    "currentStableDebt ?ur + currentVariableDebt ?ur = 0"
    by (simp_all add: demoChain_def demoWorld_def)
  have deposit: "getReserveData demoChain demoWorld (lendingPoolAddress ?wc) (tokenAddress ?wc)
       = Inr ?rd"
    "balanceOf demoChain demoWorld (aTokenAddress ?rd) ''0xDeployer'' = Inr 0"
    by (simp_all add: demoChain_def demoWorld_def)
  have r: "submitted (fst (repay_main demoLib demoChain providerEnv demoWorld)) = []
        \<and> fst (snd (repay_main demoLib demoChain providerEnv demoWorld)) = demoWorld
        \<and> snd (snd (repay_main demoLib demoChain providerEnv demoWorld)) \<noteq> Next ()"
    using zero_position_ends_before_any_call [of demoLib providerEnv ?rc demoChain demoWorld
        "[''0xDeployer'', ''0xUser'']" "''0xDeployer''" ?ur, THEN conjunct1]
      rc signers user(1) provider
    by blast
  have w: "submitted (fst (withdraw_main demoLib demoChain sepoliaEnv demoWorld)) = []
        \<and> fst (snd (withdraw_main demoLib demoChain sepoliaEnv demoWorld)) = demoWorld
        \<and> snd (snd (withdraw_main demoLib demoChain sepoliaEnv demoWorld)) \<noteq> Next ()"
    using zero_position_ends_before_any_call [of demoLib sepoliaEnv ?wc demoChain demoWorld
        "[''0xDeployer'', ''0xUser'']" "''0xDeployer''" _ ?rd, THEN conjunct2, THEN conjunct1]
      wc signers user(2) deposit
    by blast
  have silent: "getContractAt silentProviderChain demoWorld ''AaveProtocolDataProvider''
        (dataProviderAddress ?rc) = Inr ()
      \<and> getUserReserveData silentProviderChain demoWorld (dataProviderAddress ?rc)
          (tokenAddress ?rc) ''0xDeployer'' = Inl ''call revert exception''"
    by (simp add: silentProviderChain_def demoChain_def)
  have s: "repay_checkDebt silentProviderChain ?rc ''0xDeployer'' demoWorld
       = ([Out (Diagnostic ''Could not fetch debt data:'' ''call revert exception'')],
          demoWorld, Next ())"
    using zero_position_ends_before_any_call [where config = ?rc and C = silentProviderChain
        and w = demoWorld and ?user1.0 = "''0xDeployer''" and e = "''call revert exception''",
        THEN conjunct2, THEN conjunct2] provider(1) silent
    by blast
  show ?thesis
    using r w s by blast
qed

section \<open>Supply and the state of the reserve\<close>

lemma send_ignores_reads: "send (C\<lparr>getReserveData := g, paused := p\<rparr>) = send C"
  by (rule ext, rule ext) (simp add: send_def)

lemma supply_main_ignores_reserve:
  "supply_main L (C\<lparr>getReserveData := g, paused := p\<rparr>) env = supply_main L C env"
  by (simp add: supply_main_def prologue_def supply_deposit_def supply_summary_def fastForward_def
      walletOnly_def send_ignores_reads cong: if_cong)

lemma andThen_prefix: "m w = (tr, w', c) \<Longrightarrow> \<exists>rest. fst (andThen m k w) = tr @ rest"
  by (cases c) (simp_all add: andThen_Next andThen_Return andThen_Throw)

lemma seq_prefix: "m w = (tr, w', c) \<Longrightarrow> \<exists>rest. fst (seq m k w) = tr @ rest"
  unfolding seq_def by (rule andThen_prefix)

lemma supply_main_after_prologue:
  assumes "prologue L C OpSupply env w = ([], w, Next (config, user1, bal))"
    and "parseUnits L (amount config) (tokenDecimals config) = Inr amt"
  shows "\<exists>rest. supply_main L C env w = seq (supply_deposit C config user1 bal amt) rest w"
proof -
  have "attempt (parseUnits L (amount config) (tokenDecimals config)) w = ([], w, Next amt)"
    using assms(2) by (simp add: attempt_def)
  then show ?thesis
    unfolding supply_main_def
    by (simp add: andThen_Next [where m = "prologue L C OpSupply env", OF assms(1)]
          andThen_Next [where m = "attempt (parseUnits L (amount config) (tokenDecimals config))"
            and tr = "[]" and w' = w and a = amt])
       blast
qed

lemma supply_deposit_approved:
  assumes "amt \<le> int bal"
    and "submit C w (TxApprove (tokenAddress config) user1 (lendingPoolAddress config) amt) = Inr w1"
  shows "supply_deposit C config user1 bal amt w =
     (case submit C w1 (TxDeposit (lendingPoolAddress config) user1 (tokenAddress config) amt user1 0) of
        Inl e \<Rightarrow> ([Submitted (TxApprove (tokenAddress config) user1 (lendingPoolAddress config) amt),
                   Out (Text ''Approved''),
                   Submitted (TxDeposit (lendingPoolAddress config) user1 (tokenAddress config) amt
                                user1 0)], w1, Throw e)
      | Inr w2 \<Rightarrow> ([Submitted (TxApprove (tokenAddress config) user1 (lendingPoolAddress config) amt),
                    Out (Text ''Approved''),
                    Submitted (TxDeposit (lendingPoolAddress config) user1 (tokenAddress config) amt
                                 user1 0),
                    Out (Text ''Deposited'')], w2, Next ()))"
  using assms by (simp add: supply_deposit_def script_defs split: sum.splits)

lemma supply_main_submits_deposit:
  assumes "prologue L C OpSupply env w = ([], w, Next (config, user1, bal))"
    and "parseUnits L (amount config) (tokenDecimals config) = Inr amt"
    and "amt \<le> int bal"
    and "submit C w (TxApprove (tokenAddress config) user1 (lendingPoolAddress config) amt) = Inr w1"
  shows "take 3 (fst (supply_main L C env w)) =
           [Submitted (TxApprove (tokenAddress config) user1 (lendingPoolAddress config) amt),
            Out (Text ''Approved''),
            Submitted (TxDeposit (lendingPoolAddress config) user1 (tokenAddress config) amt user1 0)]"
proof -
  obtain rest where main: "supply_main L C env w = seq (supply_deposit C config user1 bal amt) rest w"
    using supply_main_after_prologue [OF assms(1,2)] by blast
  obtain tr w' c where d: "supply_deposit C config user1 bal amt w = (tr, w', c)"
    and three: "take 3 tr = [Submitted (TxApprove (tokenAddress config) user1 (lendingPoolAddress config) amt),
            Out (Text ''Approved''),
            Submitted (TxDeposit (lendingPoolAddress config) user1 (tokenAddress config) amt user1 0)]"
      "3 \<le> length tr"
    using supply_deposit_approved [OF assms(3,4)]
    by (cases "submit C w1 (TxDeposit (lendingPoolAddress config) user1 (tokenAddress config) amt user1 0)")
       simp_all
  obtain more where "fst (supply_main L C env w) = tr @ more"
    using seq_prefix [where m = "supply_deposit C config user1 bal amt", OF d] main by metis
  then show ?thesis
    using three by simp
qed

lemma supply_main_deposit_rejected:
  assumes "prologue L C OpSupply env w = ([], w, Next (config, user1, bal))"
    and "parseUnits L (amount config) (tokenDecimals config) = Inr amt"
    and "amt \<le> int bal"
    and "submit C w (TxApprove (tokenAddress config) user1 (lendingPoolAddress config) amt) = Inr w1"
    and "submit C w1 (TxDeposit (lendingPoolAddress config) user1 (tokenAddress config) amt user1 0)
           = Inl m"
  shows "supply_main L C env w =
           ([Submitted (TxApprove (tokenAddress config) user1 (lendingPoolAddress config) amt),
             Out (Text ''Approved''),
             Submitted (TxDeposit (lendingPoolAddress config) user1 (tokenAddress config) amt user1 0)],
            w1, Throw m)"
proof -
  obtain rest where main: "supply_main L C env w = seq (supply_deposit C config user1 bal amt) rest w"
    using supply_main_after_prologue [OF assms(1,2)] by blast
  show ?thesis
    unfolding main using supply_deposit_approved [OF assms(3,4)] assms(5)
    by (simp add: seq_Throw)
qed

lemma demo_supply_run:
  "supply_main demoLib demoChain sepoliaEnv demoWorld
     = ([Submitted (TxApprove ''0xToken'' ''0xDeployer'' ''0xPool'' (100 * 10 ^ 18)),
         Out (Text ''Approved''),
         Submitted (TxDeposit ''0xPool'' ''0xDeployer'' ''0xToken'' (100 * 10 ^ 18) ''0xDeployer'' 0)],
        demoWorld, Throw ''VM Exception while processing transaction: revert 2'')"
  by (rule supply_main_deposit_rejected [OF demo_prologue, simplified])
     (simp_all add: amountVariable_def demoLib_def wholeNumber_def demoChain_def demoSubmit_def
        demoWorld_def isActive_def)

text \<open>
  C3, as stated, fails: the supply script never reads the reserve's configuration. Against
  the pool whose reserve has configuration word 0 (not active, not frozen) the run submits the
  approve call and the deposit call; it is the pool that rejects the deposit, and the run ends
  with the error escaping \<^verbatim>\<open>main\<close>, printed as it is, with exit status 1.
\<close>

theorem inactive_reserve_supply_counterexample:
  "decodeStatus (configWord demoWorld) = \<lparr> rsActive = False, rsFrozen = False \<rparr>
   \<and> runMain (supply_main demoLib demoChain sepoliaEnv) demoWorld
     = ([Submitted (TxApprove ''0xToken'' ''0xDeployer'' ''0xPool'' (100 * 10 ^ 18)),
         Out (Text ''Approved''),
         Submitted (TxDeposit ''0xPool'' ''0xDeployer'' ''0xToken'' (100 * 10 ^ 18) ''0xDeployer'' 0),
         Out (ErrorMessage ''VM Exception while processing transaction: revert 2'')],
        demoWorld, 1)"
  by (simp add: runMain_def demo_supply_run)
     (simp add: decodeStatus_def isActive_def isFrozen_def demoWorld_def)

text \<open>
  C3, amended. For a reserve that exists (its yield token is not the zero address) and whose
  configuration word has bit 56 clear, the diagnostic \<^verbatim>\<open>check-pool-config.ts\<close> prints the decoded
  flags and "Reserve is not active". The supply script makes no such check: its run is the
  same whatever the pool answers to \<^verbatim>\<open>getReserveData\<close> and \<^verbatim>\<open>paused\<close>, and whenever the wallet
  balance covers the amount it submits the approve call and, once that has settled, the
  deposit call.
\<close>

theorem supply_without_reserve_check:
  "(aTokenAddress reserveData \<noteq> AddressZero \<and> \<not> bit (configuration reserveData) 56 \<longrightarrow>
      verdict name reserveData isPoolPaused
        = [ReserveFlags False (bit (configuration reserveData) 57),
           Text ''ERROR: Reserve is not active!''])
   \<and> supply_main L (C\<lparr>getReserveData := g, paused := p\<rparr>) env = supply_main L C env
   \<and> (prologue L C OpSupply env w = ([], w, Next (config, user1, bal))
        \<and> parseUnits L (amount config) (tokenDecimals config) = Inr amt
        \<and> amt \<le> int bal
        \<and> submit C w (TxApprove (tokenAddress config) user1 (lendingPoolAddress config) amt) = Inr w1
      \<longrightarrow> take 3 (fst (supply_main L C env w)) =
           [Submitted (TxApprove (tokenAddress config) user1 (lendingPoolAddress config) amt),
            Out (Text ''Approved''),
            Submitted (TxDeposit (lendingPoolAddress config) user1 (tokenAddress config) amt user1 0)])"
proof -
  have diagnostic: "aTokenAddress reserveData \<noteq> AddressZero \<and> \<not> bit (configuration reserveData) 56 \<longrightarrow>
      verdict name reserveData isPoolPaused
        = [ReserveFlags False (bit (configuration reserveData) 57),
           Text ''ERROR: Reserve is not active!'']"
    by (simp add: verdict_def Let_def isActive_def isFrozen_def shr_and_one_eq_bit)
  show ?thesis
    using diagnostic supply_main_ignores_reserve [where L = L and C = C and g = g and p = p and env = env]
      supply_main_submits_deposit [of L C env w config user1 bal amt w1]
    by blast
qed

theorem supply_without_reserve_check_witness:
  "verdict ''DAI'' \<lparr> aTokenAddress = ''0xAToken'', configuration = 0 \<rparr> False
     = [ReserveFlags False False, Text ''ERROR: Reserve is not active!'']
   \<and> take 3 (fst (supply_main demoLib demoChain sepoliaEnv demoWorld))
     = [Submitted (TxApprove ''0xToken'' ''0xDeployer'' ''0xPool'' (100 * 10 ^ 18)),
        Out (Text ''Approved''),
        Submitted (TxDeposit ''0xPool'' ''0xDeployer'' ''0xToken'' (100 * 10 ^ 18) ''0xDeployer'' 0)]"
proof -
  let ?rd = "\<lparr> aTokenAddress = ''0xAToken'', configuration = 0 \<rparr>"
  let ?c = "\<lparr> network = ''sepolia'', lendingPoolAddress = ''0xPool'',
          dataProviderAddress = [], tokenName = ''TOKEN'', tokenAddress = ''0xToken'',
          tokenDecimals = Some 18, amount = ''100'', interestRateMode = None,
          timeDelay = Some 86400 \<rparr>"
  have exists: "aTokenAddress ?rd \<noteq> AddressZero" and inactive: "\<not> bit (configuration ?rd) 56"
    by (simp_all add: AddressZero_def)
  have opened: "prologue demoLib demoChain OpSupply sepoliaEnv demoWorld
      = ([], demoWorld, Next (?c, ''0xDeployer'', 500 * 10 ^ 18))"
    by (simp add: demo_prologue amountVariable_def demoWorld_def)
  have parsed: "parseUnits demoLib (amount ?c) (tokenDecimals ?c) = Inr (100 * 10 ^ 18)"
    by (simp add: demoLib_def wholeNumber_def)
  have covered: "(100 * 10 ^ 18 :: int) \<le> int (500 * 10 ^ 18)"
    by simp
  have approved: "submit demoChain demoWorld
      (TxApprove (tokenAddress ?c) ''0xDeployer'' (lendingPoolAddress ?c) (100 * 10 ^ 18))
      = Inr demoWorld"
    by (simp add: demoChain_def demoSubmit_def)
  have a: "verdict ''DAI'' ?rd False
     = [ReserveFlags False (bit (configuration ?rd) 57), Text ''ERROR: Reserve is not active!'']"
    using supply_without_reserve_check [where reserveData = ?rd and name = "''DAI''"
        and isPoolPaused = False, THEN conjunct1] exists inactive
    by blast
  have b: "take 3 (fst (supply_main demoLib demoChain sepoliaEnv demoWorld))
     = [Submitted (TxApprove (tokenAddress ?c) ''0xDeployer'' (lendingPoolAddress ?c) (100 * 10 ^ 18)),
        Out (Text ''Approved''),
        Submitted (TxDeposit (lendingPoolAddress ?c) ''0xDeployer'' (tokenAddress ?c) (100 * 10 ^ 18)
                     ''0xDeployer'' 0)]"
    using supply_without_reserve_check [where L = demoLib and C = demoChain and env = sepoliaEnv
        and w = demoWorld and config = ?c and ?user1.0 = "''0xDeployer''" and bal = "500 * 10 ^ 18"
        and amt = "100 * 10 ^ 18" and ?w1.0 = demoWorld, THEN conjunct2, THEN conjunct2]
      opened parsed covered approved
    by blast
  show ?thesis
    using a b by simp
qed

section \<open>Exit status\<close>

lemma main_fails_on_config:
  "loadConfig L op env = Inl m \<Longrightarrow> andThen (prologue L C op env) k w = ([], w, Throw m)"
  by (simp add: andThen_Throw [where m = "prologue L C op env", OF prologue_fails])

lemma borrow_action_rejected:
  assumes "submit C w (TxBorrow (lendingPoolAddress config) user1 (tokenAddress config) amt
                         (interestRateMode config) 0 user1) = Inl m"
  shows "borrow_action C config user1 amt w
     = ([Submitted (TxBorrow (lendingPoolAddress config) user1 (tokenAddress config) amt
                      (interestRateMode config) 0 user1),
         Out (Text ''Borrow failed!''), Out (ErrorMessage m)]
        @ map Out (hintLines (borrow_kind m)), w, Return)"
  using assms by (simp add: borrow_action_def tryCatch_def seq_def andThen_def send_def failed_run)

lemma borrow_main_after_check:
  assumes "prologue L C OpBorrow env w = ([], w, Next (config, user1, bal))"
    and "borrow_checkAccount C config user1 w = (tr1, w, Next ())"
    and "parseUnits L (amount config) (tokenDecimals config) = Inr amt"
  shows "\<exists>rest. borrow_main L C env w
           = (tr1 @ fst (seq (borrow_action C config user1 amt) rest w),
              snd (seq (borrow_action C config user1 amt) rest w))"
proof -
  have "attempt (parseUnits L (amount config) (tokenDecimals config)) w = ([], w, Next amt)"
    using assms(3) by (simp add: attempt_def)
  then show ?thesis
    unfolding borrow_main_def
    by (simp add: andThen_Next [where m = "prologue L C OpBorrow env", OF assms(1)]
          seq_Next [where m = "borrow_checkAccount C config user1", OF assms(2)]
          andThen_Next [where m = "attempt (parseUnits L (amount config) (tokenDecimals config))"
            and tr = "[]" and w' = w and a = amt])
       blast
qed

lemma borrow_main_rejected:
  assumes "prologue L C OpBorrow env w = ([], w, Next (config, user1, bal))"
    and "borrow_checkAccount C config user1 w = (tr1, w, Next ())"
    and "parseUnits L (amount config) (tokenDecimals config) = Inr amt"
    and "submit C w (TxBorrow (lendingPoolAddress config) user1 (tokenAddress config) amt
                       (interestRateMode config) 0 user1) = Inl m"
  shows "borrow_main L C env w
     = (tr1 @ [Submitted (TxBorrow (lendingPoolAddress config) user1 (tokenAddress config) amt
                      (interestRateMode config) 0 user1),
         Out (Text ''Borrow failed!''), Out (ErrorMessage m)]
        @ map Out (hintLines (borrow_kind m)), w, Return)"
proof -
  obtain rest where "borrow_main L C env w
           = (tr1 @ fst (seq (borrow_action C config user1 amt) rest w),
              snd (seq (borrow_action C config user1 amt) rest w))"
    using borrow_main_after_check [OF assms(1-3)] by blast
  then show ?thesis
    by (simp add: seq_Return [where m = "borrow_action C config user1 amt",
          OF borrow_action_rejected [OF assms(4)]])
qed

lemma checkPoolConfig_missing:
  assumes "\<not> truthy (env (networkPrefix env @ ''LENDING_POOL_ADDRESS''))"
    and "\<not> truthy (env ''LENDING_POOL_ADDRESS'')"
  shows "checkPoolConfig_main C env w
     = ([Out (Text ''Missing required environment variables!''),
         Out (Text ''Need: LENDING_POOL_ADDRESS and TOKEN_ADDRESS''),
         Out (Text ''Or: LOCAL_*/SEPOLIA_* prefixed versions based on NETWORK setting'')],
        w, Return)"
  using assms
  by (simp add: checkPoolConfig_main_def Let_def js_or_def networkPrefix_def script_defs
      split: if_splits)

lemma demo_borrow_run:
  "borrow_main demoLib demoChain sepoliaEnv demoWorld
     = ([Submitted (TxBorrow ''0xPool'' ''0xDeployer'' ''0xToken'' (100 * 10 ^ 18) (Some 2) 0
                      ''0xDeployer''),
         Out (Text ''Borrow failed!''),
         Out (ErrorMessage ''VM Exception while processing transaction: revert 11''),
         Out (Hint InvalidCollateralReserve)], demoWorld, Return)"
proof -
  have hint: "hintLines (borrow_kind ''VM Exception while processing transaction: revert 11'')
      = [Hint InvalidCollateralReserve]"
    by (simp add: borrow_kind_def hintLines_def)
  show ?thesis
    using borrow_main_rejected [OF demo_prologue, simplified, where ?tr1.0 = "[]"
        and amt = "100 * 10 ^ 18"
        and m = "''VM Exception while processing transaction: revert 11''"]
    by (simp add: hint borrow_checkAccount_def skip_def yield_def amountVariable_def demoLib_def
        wholeNumber_def demoChain_def demoSubmit_def demoWorld_def)
qed

text \<open>
  C7, as stated, fails: a run whose borrow call is rejected by the pool prints the failure,
  the raw message and a hint, returns from \<^verbatim>\<open>main\<close>, and exits with status 0.
\<close>

theorem rejected_borrow_exit_counterexample:
  "runMain (borrow_main demoLib demoChain sepoliaEnv) demoWorld
     = ([Submitted (TxBorrow ''0xPool'' ''0xDeployer'' ''0xToken'' (100 * 10 ^ 18) (Some 2) 0
                      ''0xDeployer''),
         Out (Text ''Borrow failed!''),
         Out (ErrorMessage ''VM Exception while processing transaction: revert 11''),
         Out (Hint InvalidCollateralReserve)], demoWorld, 0)"
  by (simp add: runMain_def demo_borrow_run)

text \<open>
  C7, amended. The exit status is 0 exactly when \<^verbatim>\<open>main\<close> returns and 1 exactly when an error
  escapes it, in which case the last line printed is the raw message of that error. A
  missing required address in \<^verbatim>\<open>loadConfig\<close> escapes \<^verbatim>\<open>main\<close> in all four operation scripts, and
  so does a rejected deposit call of the supply script: status 1. A rejected borrow call is
  caught and reported by the script, which then returns: status 0. The diagnostic
  \<^verbatim>\<open>check-pool-config.ts\<close> reports missing addresses and returns: status 0.
\<close>

theorem exit_status_convention:
  "(snd (snd (runMain main w)) = 0 \<longleftrightarrow> (\<forall>e. snd (snd (main w)) \<noteq> Throw e))
   \<and> (snd (snd (main w)) = Throw e \<longrightarrow>
        runMain main w = (fst (main w) @ [Out (ErrorMessage e)], fst (snd (main w)), 1))
   \<and> (loadConfig L op env = Inl m \<longrightarrow>
        runMain (case op of OpSupply \<Rightarrow> supply_main L C env | OpBorrow \<Rightarrow> borrow_main L C env
                 | OpRepay \<Rightarrow> repay_main L C env | OpWithdraw \<Rightarrow> withdraw_main L C env) w'
          = ([Out (ErrorMessage m)], w', 1))
   \<and> (prologue L C OpSupply env w' = ([], w', Next (config, user1, bal))
        \<and> parseUnits L (amount config) (tokenDecimals config) = Inr amt
        \<and> amt \<le> int bal
        \<and> submit C w' (TxApprove (tokenAddress config) user1 (lendingPoolAddress config) amt) = Inr w1
        \<and> submit C w1 (TxDeposit (lendingPoolAddress config) user1 (tokenAddress config) amt user1 0)
             = Inl rejection \<longrightarrow>
        runMain (supply_main L C env) w'
          = ([Submitted (TxApprove (tokenAddress config) user1 (lendingPoolAddress config) amt),
              Out (Text ''Approved''),
              Submitted (TxDeposit (lendingPoolAddress config) user1 (tokenAddress config) amt user1 0),
              Out (ErrorMessage rejection)], w1, 1))
   \<and> (prologue L C OpBorrow env w' = ([], w', Next (config, user1, bal))
        \<and> borrow_checkAccount C config user1 w' = (tr1, w', Next ())
        \<and> parseUnits L (amount config) (tokenDecimals config) = Inr amt
        \<and> submit C w' (TxBorrow (lendingPoolAddress config) user1 (tokenAddress config) amt
                         (interestRateMode config) 0 user1) = Inl rejection \<longrightarrow>
        runMain (borrow_main L C env) w'
          = (tr1 @ [Submitted (TxBorrow (lendingPoolAddress config) user1 (tokenAddress config) amt
                                 (interestRateMode config) 0 user1),
                    Out (Text ''Borrow failed!''), Out (ErrorMessage rejection)]
             @ map Out (hintLines (borrow_kind rejection)), w', 0))
   \<and> (\<not> truthy (env (networkPrefix env @ ''LENDING_POOL_ADDRESS''))
        \<and> \<not> truthy (env ''LENDING_POOL_ADDRESS'') \<longrightarrow>
        runCheck (checkPoolConfig_main C env) w'
          = ([Out (Text ''Missing required environment variables!''),
              Out (Text ''Need: LENDING_POOL_ADDRESS and TOKEN_ADDRESS''),
              Out (Text ''Or: LOCAL_*/SEPOLIA_* prefixed versions based on NETWORK setting'')],
             w', 0))"
proof -
  obtain tr v c where r: "main w = (tr, v, c)"
    by (cases "main w") auto
  have status: "snd (snd (runMain main w)) = 0 \<longleftrightarrow> (\<forall>e. snd (snd (main w)) \<noteq> Throw e)"
    using r by (cases c) (simp_all add: runMain_def)
  have escapes: "snd (snd (main w)) = Throw e \<longrightarrow>
        runMain main w = (fst (main w) @ [Out (ErrorMessage e)], fst (snd (main w)), 1)"
    using r by (cases c) (simp_all add: runMain_def)
  have missing: "loadConfig L op env = Inl m \<longrightarrow>
        runMain (case op of OpSupply \<Rightarrow> supply_main L C env | OpBorrow \<Rightarrow> borrow_main L C env
                 | OpRepay \<Rightarrow> repay_main L C env | OpWithdraw \<Rightarrow> withdraw_main L C env) w'
          = ([Out (ErrorMessage m)], w', 1)"
    by (cases op)
       (simp_all add: runMain_def supply_main_def borrow_main_def repay_main_def withdraw_main_def
          main_fails_on_config)
  have deposit: "prologue L C OpSupply env w' = ([], w', Next (config, user1, bal))
        \<and> parseUnits L (amount config) (tokenDecimals config) = Inr amt
        \<and> amt \<le> int bal
        \<and> submit C w' (TxApprove (tokenAddress config) user1 (lendingPoolAddress config) amt) = Inr w1
        \<and> submit C w1 (TxDeposit (lendingPoolAddress config) user1 (tokenAddress config) amt user1 0)
             = Inl rejection \<longrightarrow>
        runMain (supply_main L C env) w'
          = ([Submitted (TxApprove (tokenAddress config) user1 (lendingPoolAddress config) amt),
              Out (Text ''Approved''),
              Submitted (TxDeposit (lendingPoolAddress config) user1 (tokenAddress config) amt user1 0),
              Out (ErrorMessage rejection)], w1, 1)"
    using supply_main_deposit_rejected [of L C env w' config user1 bal amt w1 rejection]
    by (simp add: runMain_def)
  have borrow: "prologue L C OpBorrow env w' = ([], w', Next (config, user1, bal))
        \<and> borrow_checkAccount C config user1 w' = (tr1, w', Next ())
        \<and> parseUnits L (amount config) (tokenDecimals config) = Inr amt
        \<and> submit C w' (TxBorrow (lendingPoolAddress config) user1 (tokenAddress config) amt
                         (interestRateMode config) 0 user1) = Inl rejection \<longrightarrow>
        runMain (borrow_main L C env) w'
          = (tr1 @ [Submitted (TxBorrow (lendingPoolAddress config) user1 (tokenAddress config) amt
                                 (interestRateMode config) 0 user1),
                    Out (Text ''Borrow failed!''), Out (ErrorMessage rejection)]
             @ map Out (hintLines (borrow_kind rejection)), w', 0)"
    using borrow_main_rejected [of L C env w' config user1 bal tr1 amt rejection]
    by (simp add: runMain_def)
  have diagnostic: "\<not> truthy (env (networkPrefix env @ ''LENDING_POOL_ADDRESS''))
        \<and> \<not> truthy (env ''LENDING_POOL_ADDRESS'') \<longrightarrow>
        runCheck (checkPoolConfig_main C env) w'
          = ([Out (Text ''Missing required environment variables!''),
              Out (Text ''Need: LENDING_POOL_ADDRESS and TOKEN_ADDRESS''),
              Out (Text ''Or: LOCAL_*/SEPOLIA_* prefixed versions based on NETWORK setting'')],
             w', 0)"
    using checkPoolConfig_missing [of env C w'] by (simp add: runCheck_def)
  show ?thesis
    by (intro conjI) (fact status escapes missing deposit borrow diagnostic)+
qed

theorem exit_status_convention_witness:
  "snd (snd (runMain (borrow_main demoLib demoChain sepoliaEnv) demoWorld)) = 0
   \<and> runMain (supply_main demoLib demoChain sepoliaEnv) demoWorld
     = ([Submitted (TxApprove ''0xToken'' ''0xDeployer'' ''0xPool'' (100 * 10 ^ 18)),
         Out (Text ''Approved''),
         Submitted (TxDeposit ''0xPool'' ''0xDeployer'' ''0xToken'' (100 * 10 ^ 18) ''0xDeployer'' 0),
         Out (ErrorMessage ''VM Exception while processing transaction: revert 2'')],
        demoWorld, 1)
   \<and> runMain (repay_main demoLib demoChain Map.empty) demoWorld
     = ([Out (ErrorMessage ''Missing required environment variable: LOCAL_LENDING_POOL_ADDRESS (or fallback LENDING_POOL_ADDRESS)'')],
        demoWorld, 1)
   \<and> runMain (borrow_main demoLib demoChain sepoliaEnv) demoWorld
     = ([Submitted (TxBorrow ''0xPool'' ''0xDeployer'' ''0xToken'' (100 * 10 ^ 18) (Some 2) 0
                      ''0xDeployer''),
         Out (Text ''Borrow failed!''),
         Out (ErrorMessage ''VM Exception while processing transaction: revert 11''),
         Out (Hint InvalidCollateralReserve)], demoWorld, 0)
   \<and> runCheck (checkPoolConfig_main demoChain Map.empty) demoWorld
     = ([Out (Text ''Missing required environment variables!''),
         Out (Text ''Need: LENDING_POOL_ADDRESS and TOKEN_ADDRESS''),
         Out (Text ''Or: LOCAL_*/SEPOLIA_* prefixed versions based on NETWORK setting'')],
        demoWorld, 0)"
proof -
  let ?sc = "\<lparr> network = ''sepolia'', lendingPoolAddress = ''0xPool'',
          dataProviderAddress = [], tokenName = ''TOKEN'', tokenAddress = ''0xToken'',
          tokenDecimals = Some 18, amount = ''100'', interestRateMode = None,
          timeDelay = Some 86400 \<rparr>"
  let ?bc = "\<lparr> network = ''sepolia'', lendingPoolAddress = ''0xPool'',
          dataProviderAddress = [], tokenName = ''TOKEN'', tokenAddress = ''0xToken'',
          tokenDecimals = Some 18, amount = ''100'', interestRateMode = Some 2,
          timeDelay = Some 86400 \<rparr>"
  let ?code2 = "''VM Exception while processing transaction: revert 2''"
  let ?code11 = "''VM Exception while processing transaction: revert 11''"
  let ?missing = "''Missing required environment variable: LOCAL_LENDING_POOL_ADDRESS (or fallback LENDING_POOL_ADDRESS)''"
  have returns: "\<forall>e. snd (snd (borrow_main demoLib demoChain sepoliaEnv demoWorld)) \<noteq> Throw e"
    by (simp add: demo_borrow_run)
  have a: "snd (snd (runMain (borrow_main demoLib demoChain sepoliaEnv) demoWorld)) = 0"
    using exit_status_convention [where main = "borrow_main demoLib demoChain sepoliaEnv"
        and w = demoWorld, THEN conjunct1] returns
    by (rule iffD2)
  have throws: "snd (snd (supply_main demoLib demoChain sepoliaEnv demoWorld)) = Throw ?code2"
    by (simp add: demo_supply_run)
  have "runMain (supply_main demoLib demoChain sepoliaEnv) demoWorld
     = (fst (supply_main demoLib demoChain sepoliaEnv demoWorld) @ [Out (ErrorMessage ?code2)],
        fst (snd (supply_main demoLib demoChain sepoliaEnv demoWorld)), 1)"
    using exit_status_convention [where main = "supply_main demoLib demoChain sepoliaEnv"
        and w = demoWorld and e = ?code2, THEN conjunct2, THEN conjunct1] throws
    by (rule mp)
  then have b: "runMain (supply_main demoLib demoChain sepoliaEnv) demoWorld
     = ([Submitted (TxApprove ''0xToken'' ''0xDeployer'' ''0xPool'' (100 * 10 ^ 18)),
         Out (Text ''Approved''),
         Submitted (TxDeposit ''0xPool'' ''0xDeployer'' ''0xToken'' (100 * 10 ^ 18) ''0xDeployer'' 0),
         Out (ErrorMessage ?code2)], demoWorld, 1)"
    by (simp add: demo_supply_run)
  have unset: "loadConfig demoLib OpRepay Map.empty = Inl ?missing"
    by (simp add: loadConfig_def or_default_def js_or_def truthy_def missingVariable_def)
  have c: "runMain (repay_main demoLib demoChain Map.empty) demoWorld
     = ([Out (ErrorMessage ?missing)], demoWorld, 1)"
    using exit_status_convention [where L = demoLib and op = OpRepay and env = Map.empty
        and m = ?missing and C = demoChain and w' = demoWorld,
        THEN conjunct2, THEN conjunct2, THEN conjunct1] unset
    by simp
  have opened: "prologue demoLib demoChain OpSupply sepoliaEnv demoWorld
      = ([], demoWorld, Next (?sc, ''0xDeployer'', 500 * 10 ^ 18))"
    "prologue demoLib demoChain OpBorrow sepoliaEnv demoWorld
      = ([], demoWorld, Next (?bc, ''0xDeployer'', 500 * 10 ^ 18))"
    by (simp_all add: demo_prologue amountVariable_def demoWorld_def)
  have parsed: "parseUnits demoLib (amount ?sc) (tokenDecimals ?sc) = Inr (100 * 10 ^ 18)"
    "parseUnits demoLib (amount ?bc) (tokenDecimals ?bc) = Inr (100 * 10 ^ 18)"
    by (simp_all add: demoLib_def wholeNumber_def)
  have covered: "(100 * 10 ^ 18 :: int) \<le> int (500 * 10 ^ 18)"
    by simp
  have approved: "submit demoChain demoWorld
      (TxApprove (tokenAddress ?sc) ''0xDeployer'' (lendingPoolAddress ?sc) (100 * 10 ^ 18))
      = Inr demoWorld"
    by (simp add: demoChain_def demoSubmit_def)
  have refused: "submit demoChain demoWorld
      (TxDeposit (lendingPoolAddress ?sc) ''0xDeployer'' (tokenAddress ?sc) (100 * 10 ^ 18)
         ''0xDeployer'' 0) = Inl ?code2"
    by (simp add: demoChain_def demoSubmit_def demoWorld_def isActive_def)
  have b': "runMain (supply_main demoLib demoChain sepoliaEnv) demoWorld
     = ([Submitted (TxApprove (tokenAddress ?sc) ''0xDeployer'' (lendingPoolAddress ?sc) (100 * 10 ^ 18)),
         Out (Text ''Approved''),
         Submitted (TxDeposit (lendingPoolAddress ?sc) ''0xDeployer'' (tokenAddress ?sc)
                      (100 * 10 ^ 18) ''0xDeployer'' 0),
         Out (ErrorMessage ?code2)], demoWorld, 1)"
    using exit_status_convention [where L = demoLib and C = demoChain and env = sepoliaEnv
        and w' = demoWorld and config = ?sc and ?user1.0 = "''0xDeployer''"
        and bal = "500 * 10 ^ 18" and amt = "100 * 10 ^ 18" and ?w1.0 = demoWorld
        and rejection = ?code2,
        THEN conjunct2, THEN conjunct2, THEN conjunct2, THEN conjunct1]
      opened(1) parsed(1) covered approved refused
    by blast
  have passed: "borrow_checkAccount demoChain ?bc ''0xDeployer'' demoWorld
      = ([], demoWorld, Next ())"
    by (simp add: borrow_checkAccount_def skip_def yield_def)
  have rejected: "submit demoChain demoWorld
      (TxBorrow (lendingPoolAddress ?bc) ''0xDeployer'' (tokenAddress ?bc) (100 * 10 ^ 18)
         (interestRateMode ?bc) 0 ''0xDeployer'') = Inl ?code11"
    by (simp add: demoChain_def demoSubmit_def demoWorld_def)
  have hint: "hintLines (borrow_kind ?code11) = [Hint InvalidCollateralReserve]"
    by (simp add: borrow_kind_def hintLines_def)
  have "runMain (borrow_main demoLib demoChain sepoliaEnv) demoWorld
     = ([] @ [Submitted (TxBorrow (lendingPoolAddress ?bc) ''0xDeployer'' (tokenAddress ?bc)
                      (100 * 10 ^ 18) (interestRateMode ?bc) 0 ''0xDeployer''),
         Out (Text ''Borrow failed!''), Out (ErrorMessage ?code11)]
        @ map Out (hintLines (borrow_kind ?code11)), demoWorld, 0)"
    using exit_status_convention [where L = demoLib and C = demoChain and env = sepoliaEnv
        and w' = demoWorld and config = ?bc and ?user1.0 = "''0xDeployer''"
        and bal = "500 * 10 ^ 18" and amt = "100 * 10 ^ 18" and ?tr1.0 = "[]"
        and rejection = ?code11,
        THEN conjunct2, THEN conjunct2, THEN conjunct2, THEN conjunct2, THEN conjunct1]
      opened(2) passed parsed(2) rejected
    by blast
  then have d: "runMain (borrow_main demoLib demoChain sepoliaEnv) demoWorld
     = ([Submitted (TxBorrow ''0xPool'' ''0xDeployer'' ''0xToken'' (100 * 10 ^ 18) (Some 2) 0
                      ''0xDeployer''),
         Out (Text ''Borrow failed!''), Out (ErrorMessage ?code11),
         Out (Hint InvalidCollateralReserve)], demoWorld, 0)"
    by (simp add: hint)
  have nothing: "\<not> truthy (Map.empty (networkPrefix Map.empty @ ''LENDING_POOL_ADDRESS''))"
    "\<not> truthy (Map.empty ''LENDING_POOL_ADDRESS'')"
    by (simp_all add: truthy_def)
  have e: "runCheck (checkPoolConfig_main demoChain Map.empty) demoWorld
     = ([Out (Text ''Missing required environment variables!''),
         Out (Text ''Need: LENDING_POOL_ADDRESS and TOKEN_ADDRESS''),
         Out (Text ''Or: LOCAL_*/SEPOLIA_* prefixed versions based on NETWORK setting'')],
        demoWorld, 0)"
    using exit_status_convention [where env = Map.empty and C = demoChain and w' = demoWorld,
        THEN conjunct2, THEN conjunct2, THEN conjunct2, THEN conjunct2, THEN conjunct2]
      nothing
    by (simp add: truthy_def)
  from b' have "runMain (supply_main demoLib demoChain sepoliaEnv) demoWorld
     = ([Submitted (TxApprove ''0xToken'' ''0xDeployer'' ''0xPool'' (100 * 10 ^ 18)),
         Out (Text ''Approved''),
         Submitted (TxDeposit ''0xPool'' ''0xDeployer'' ''0xToken'' (100 * 10 ^ 18) ''0xDeployer'' 0),
         Out (ErrorMessage ?code2)], demoWorld, 1)"
    by simp
  with a c d e show ?thesis
    by (intro conjI)
qed

section \<open>The amount of the submitted calls\<close>

lemma txsIn_fastForward:
  "P (EvmIncreaseTime (timeDelay config)) \<Longrightarrow> P EvmMine \<Longrightarrow> txsIn P (fastForward C config w)"
  unfolding fastForward_def by (intro txsIn_rules) (simp_all add: txsIn_send)

lemma txsIn_walletOnly: "txsIn P (walletOnly C config user1 w)"
  unfolding walletOnly_def by (intro txsIn_rules)

lemma txsIn_summaryFailed: "txsIn P (summaryFailed e w)"
  unfolding summaryFailed_def by (intro txsIn_rules)

lemma txsIn_repay_checkDebt: "txsIn P (repay_checkDebt C config user1 w)"
  unfolding repay_checkDebt_def Let_def by (intro txsIn_rules)

lemma txsIn_repay_summary: "txsIn P (repay_summary C config user1 before w)"
  unfolding repay_summary_def by (intro txsIn_rules txsIn_walletOnly txsIn_summaryFailed)

lemma txsIn_repay_action:
  assumes "P (TxApprove (tokenAddress config) user1 (lendingPoolAddress config) amt)"
    and "P (TxRepay (lendingPoolAddress config) user1 (tokenAddress config) amt
              (interestRateMode config) user1)"
  shows "txsIn P (repay_action C config user1 amt w)"
  unfolding repay_action_def by (intro txsIn_rules) (simp_all add: txsIn_send assms)

lemma txsIn_withdraw_checkDeposit: "txsIn P (withdraw_checkDeposit C config user1 w)"
  unfolding withdraw_checkDeposit_def by (intro txsIn_rules)

lemma txsIn_withdraw_position: "txsIn P (withdraw_position C config user1 w)"
  unfolding withdraw_position_def by (intro txsIn_rules)

lemma txsIn_withdraw_summary: "txsIn P (withdraw_summary C config user1 before w)"
  unfolding withdraw_summary_def by (intro txsIn_rules txsIn_walletOnly txsIn_summaryFailed)

lemma txsIn_withdraw_action:
  assumes "P (TxWithdraw (lendingPoolAddress config) user1 (tokenAddress config) amt user1)"
  shows "txsIn P (withdraw_action C config user1 amt w)"
  unfolding withdraw_action_def by (intro txsIn_rules) (simp_all add: txsIn_send assms)

lemma repay_main_sentinel:
  assumes cfg: "loadConfig L OpRepay env = Inr config"
    and zero: "amount config = ''0'' \<or> amount config = []"
  shows "txsIn (\<lambda>t. txAmount t = None \<or> txAmount t = Some MaxUint256) (repay_main L C env w)"
  unfolding repay_main_def
proof (rule txsIn_andThen)
  show "txsIn (\<lambda>t. txAmount t = None \<or> txAmount t = Some MaxUint256) (prologue L C OpRepay env w)"
    by (rule txsIn_prologue)
next
  fix tr w' a
  assume p: "prologue L C OpRepay env w = (tr, w', Next a)"
  obtain config' user1 bal where a: "a = (config', user1, bal)"
    by (cases a)
  have c: "config' = config"
    using prologue_Next [of L C OpRepay env w tr w' config' user1 bal] p a cfg by simp
  have sentinel: "repayAmountWei L config = Inr MaxUint256"
    using zero by (simp add: repayAmountWei_def)
  show "txsIn (\<lambda>t. txAmount t = None \<or> txAmount t = Some MaxUint256)
          ((case a of (config, user1, initialBalance) \<Rightarrow>
              seq (repay_checkDebt C config user1)
                (andThen (await (\<lambda>w. getUserAccountData C w (lendingPoolAddress config) user1))
                   (\<lambda>accountDataBefore.
                      seq (say (renderHealthFactor (healthFactor accountDataBefore)))
                        (andThen (attempt (repayAmountWei L config))
                           (\<lambda>amountWei.
                              seq (repay_action C config user1 amountWei)
                                (seq (if isLocalNetwork env then fastForward C config else skip)
                                   (seq (repay_summary C config user1 accountDataBefore)
                                      (say (Text ''Repayment operation completed!'')))))))))
            w')"
    unfolding a c prod.case
    by (intro txsIn_rules txsIn_repay_checkDebt txsIn_repay_action txsIn_fastForward
          txsIn_repay_summary)
       (auto simp: sentinel dest!: attempt_Next)
qed

lemma withdraw_main_sentinel:
  assumes cfg: "loadConfig L OpWithdraw env = Inr config"
    and zero: "amount config = ''0'' \<or> amount config = []"
  shows "txsIn (\<lambda>t. txAmount t = None \<or> txAmount t = Some MaxUint256) (withdraw_main L C env w)"
  unfolding withdraw_main_def
proof (rule txsIn_andThen)
  show "txsIn (\<lambda>t. txAmount t = None \<or> txAmount t = Some MaxUint256) (prologue L C OpWithdraw env w)"
    by (rule txsIn_prologue)
next
  fix tr w' a
  assume p: "prologue L C OpWithdraw env w = (tr, w', Next a)"
  obtain config' user1 bal where a: "a = (config', user1, bal)"
    by (cases a)
  have c: "config' = config"
    using prologue_Next [of L C OpWithdraw env w tr w' config' user1 bal] p a cfg by simp
  have sentinel: "withdrawAmountWei L config = Inr MaxUint256"
    using zero by (simp add: withdrawAmountWei_def)
  show "txsIn (\<lambda>t. txAmount t = None \<or> txAmount t = Some MaxUint256)
          ((case a of (config, user1, initialBalance) \<Rightarrow>
              seq (withdraw_checkDeposit C config user1)
                (seq (withdraw_position C config user1)
                   (andThen (await (\<lambda>w. getUserAccountData C w (lendingPoolAddress config) user1))
                      (\<lambda>accountDataBefore.
                         seq (say (renderHealthFactor (healthFactor accountDataBefore)))
                           (andThen (attempt (withdrawAmountWei L config))
                              (\<lambda>amountWei.
                                 seq (withdraw_action C config user1 amountWei)
                                   (seq (if isLocalNetwork env then fastForward C config else skip)
                                      (seq (withdraw_summary C config user1 accountDataBefore)
                                         (say (Text ''Withdrawal operation completed!''))))))))))
            w')"
    unfolding a c prod.case
    by (intro txsIn_rules txsIn_withdraw_checkDeposit txsIn_withdraw_position txsIn_withdraw_action
          txsIn_fastForward txsIn_withdraw_summary)
       (auto simp: sentinel dest!: attempt_Next)
qed

lemma seq_send_first: "\<exists>rest. fst (seq (send C t) k w) = Submitted t # rest"
proof -
  obtain w' c where "send C t w = ([Submitted t], w', c)"
    by (cases "submit C w t") (simp_all add: send_def)
  then show ?thesis
    using seq_prefix [where m = "send C t" and k = k and w = w] by fastforce
qed

lemma tryCatch_prefix: "\<exists>rest. fst (tryCatch body handler w) = fst (body w) @ rest"
proof -
  obtain tr w' c where r: "body w = (tr, w', c)"
    by (cases "body w") auto
  show ?thesis
    using r by (cases c) (simp_all add: tryCatch_def split: prod.splits)
qed

lemma supply_main_first_call:
  assumes "prologue L C OpSupply env w = ([], w, Next (config, user1, bal))"
    and "parseUnits L (amount config) (tokenDecimals config) = Inr amt"
    and "amt \<le> int bal"
  shows "\<exists>rest. fst (supply_main L C env w)
           = Submitted (TxApprove (tokenAddress config) user1 (lendingPoolAddress config) amt) # rest"
proof -
  obtain rest where main: "supply_main L C env w = seq (supply_deposit C config user1 bal amt) rest w"
    using supply_main_after_prologue [OF assms(1,2)] by blast
  obtain tr where d: "fst (supply_deposit C config user1 bal amt w)
      = Submitted (TxApprove (tokenAddress config) user1 (lendingPoolAddress config) amt) # tr"
    using assms(3) seq_send_first [of C _ _ w] by (simp add: supply_deposit_def) blast
  obtain w' c where "supply_deposit C config user1 bal amt w
      = (Submitted (TxApprove (tokenAddress config) user1 (lendingPoolAddress config) amt) # tr, w', c)"
    using d by (cases "supply_deposit C config user1 bal amt w") auto
  then obtain more where "fst (supply_main L C env w)
      = (Submitted (TxApprove (tokenAddress config) user1 (lendingPoolAddress config) amt) # tr) @ more"
    using seq_prefix [where m = "supply_deposit C config user1 bal amt"] main by metis
  then show ?thesis
    by simp
qed

lemma borrow_main_first_call:
  assumes "prologue L C OpBorrow env w = ([], w, Next (config, user1, bal))"
    and "borrow_checkAccount C config user1 w = (tr1, w, Next ())"
    and "parseUnits L (amount config) (tokenDecimals config) = Inr amt"
  shows "\<exists>rest. fst (borrow_main L C env w)
           = tr1 @ Submitted (TxBorrow (lendingPoolAddress config) user1 (tokenAddress config) amt
                                (interestRateMode config) 0 user1) # rest"
proof -
  obtain rest where main: "borrow_main L C env w
           = (tr1 @ fst (seq (borrow_action C config user1 amt) rest w),
              snd (seq (borrow_action C config user1 amt) rest w))"
    using borrow_main_after_check [OF assms] by blast
  obtain tr where d: "fst (borrow_action C config user1 amt w)
      = Submitted (TxBorrow (lendingPoolAddress config) user1 (tokenAddress config) amt
                      (interestRateMode config) 0 user1) # tr"
    unfolding borrow_action_def
    using tryCatch_prefix seq_send_first by (metis append_Cons)
  obtain w' c where "borrow_action C config user1 amt w
      = (Submitted (TxBorrow (lendingPoolAddress config) user1 (tokenAddress config) amt
                      (interestRateMode config) 0 user1) # tr, w', c)"
    using d by (cases "borrow_action C config user1 amt w") auto
  then obtain more where "fst (seq (borrow_action C config user1 amt) rest w)
      = (Submitted (TxBorrow (lendingPoolAddress config) user1 (tokenAddress config) amt
                      (interestRateMode config) 0 user1) # tr) @ more"
    using seq_prefix [where m = "borrow_action C config user1 amt"] by metis
  then show ?thesis
    using main by simp
qed

lemma demo_zero_prologue:
  "prologue demoLib demoChain op zeroAmountEnv w
     = ([], w, Next (\<lparr> network = ''sepolia'', lendingPoolAddress = ''0xPool'',
          dataProviderAddress = [], tokenName = ''TOKEN'', tokenAddress = ''0xToken'',
          tokenDecimals = Some 18, amount = ''0'',
          interestRateMode = (if op = OpBorrow \<or> op = OpRepay then Some 2 else None),
          timeDelay = Some 86400 \<rparr>, ''0xDeployer'', walletOf w))"
proof -
  have live: "\<not> isLocalNetwork zeroAmountEnv"
    by (simp add: isLocalNetwork_def zeroAmountEnv_def sepoliaEnv_def or_default_def)
  have cfg: "loadConfig demoLib op zeroAmountEnv = Inr \<lparr> network = ''sepolia'',
          lendingPoolAddress = ''0xPool'',
          dataProviderAddress = [], tokenName = ''TOKEN'', tokenAddress = ''0xToken'',
          tokenDecimals = Some 18, amount = ''0'',
          interestRateMode = (if op = OpBorrow \<or> op = OpRepay then Some 2 else None),
          timeDelay = Some 86400 \<rparr>"
    by (cases op)
       (simp_all add: loadConfig_def zeroAmountEnv_def sepoliaEnv_def or_default_def js_or_def
          truthy_def amountVariable_def demoLib_def wholeNumber_def)
  show ?thesis
    by (rule prologue_ok [OF cfg, where signers = "[''0xDeployer'', ''0xUser'']"])
       (simp_all add: live selectUser_def demoChain_def demoLib_def)
qed

lemma demo_zero_supply_run:
  "supply_main demoLib demoChain zeroAmountEnv activeWorld
     = ([Submitted (TxApprove ''0xToken'' ''0xDeployer'' ''0xPool'' 0), Out (Text ''Approved''),
         Submitted (TxDeposit ''0xPool'' ''0xDeployer'' ''0xToken'' 0 ''0xDeployer'' 0)],
        activeWorld, Throw ''VM Exception while processing transaction: revert 1'')"
  by (rule supply_main_deposit_rejected [OF demo_zero_prologue, simplified])
     (simp_all add: demoLib_def wholeNumber_def demoChain_def demoSubmit_def)

lemma demo_repay_calls:
  "submitted (fst (repay_main demoLib demoChain sepoliaEnv (demoWorld\<lparr>variableDebtOf := 7\<rparr>)))
     = [TxApprove ''0xToken'' ''0xDeployer'' ''0xPool'' MaxUint256,
        TxRepay ''0xPool'' ''0xDeployer'' ''0xToken'' MaxUint256 (Some 2) ''0xDeployer'']"
  unfolding repay_main_def
  by (simp add: andThen_Next [where m = "prologue demoLib demoChain OpRepay sepoliaEnv",
        OF demo_prologue])
     (simp add: script_defs repay_checkDebt_def repayAmountWei_def repay_action_def
        repay_summary_def walletOnly_def amountVariable_def demoChain_def demoSubmit_def
        isLocalNetwork_def sepoliaEnv_def or_default_def)

lemma demo_withdraw_calls:
  "submitted (fst (withdraw_main demoLib demoChain sepoliaEnv (demoWorld\<lparr>depositOf := 30\<rparr>)))
     = [TxWithdraw ''0xPool'' ''0xDeployer'' ''0xToken'' MaxUint256 ''0xDeployer'']"
  unfolding withdraw_main_def
  by (simp add: andThen_Next [where m = "prologue demoLib demoChain OpWithdraw sepoliaEnv",
        OF demo_prologue])
     (simp add: script_defs withdraw_checkDeposit_def withdraw_position_def withdrawAmountWei_def
        withdraw_action_def withdraw_summary_def walletOnly_def amountVariable_def demoChain_def
        demoSubmit_def isLocalNetwork_def sepoliaEnv_def or_default_def)

text \<open>
  C2, as stated, fails for supply (and for borrow): an amount of 0 is not rejected by the
  script. With \<^verbatim>\<open>TOKEN_SUPPLY_AMOUNT=0\<close> the supply run submits an approve call and a deposit
  call of amount 0; the rejection comes from the pool, and the run ends with that error
  escaping \<^verbatim>\<open>main\<close>.
\<close>

theorem zero_supply_counterexample:
  "zeroAmountEnv ''TOKEN_SUPPLY_AMOUNT'' = Some ''0''
   \<and> runMain (supply_main demoLib demoChain zeroAmountEnv) activeWorld
     = ([Submitted (TxApprove ''0xToken'' ''0xDeployer'' ''0xPool'' 0), Out (Text ''Approved''),
         Submitted (TxDeposit ''0xPool'' ''0xDeployer'' ''0xToken'' 0 ''0xDeployer'' 0),
         Out (ErrorMessage ''VM Exception while processing transaction: revert 1'')],
        activeWorld, 1)"
  by (simp add: runMain_def demo_zero_supply_run) (simp add: zeroAmountEnv_def)

text \<open>
  C2, amended. For repay and withdraw the amount \<^verbatim>\<open>'0'\<close> (or the empty string) is the full-amount
  sentinel \<^verbatim>\<open>MaxUint256\<close>, and every approve, repay and withdraw call of such a run carries it.
  For supply and borrow there is neither a sentinel nor a check: the amount goes through
  \<^verbatim>\<open>parseUnits\<close>, and when that gives 0 the run submits the approve call of amount 0 (supply)
  or the borrow call of amount 0 (borrow, unless the account check ended the run).
\<close>

theorem amount_zero_convention:
  "((amount config = ''0'' \<or> amount config = []) \<longrightarrow>
      repayAmountWei L config = Inr MaxUint256 \<and> withdrawAmountWei L config = Inr MaxUint256)
   \<and> (loadConfig L OpRepay env = Inr config \<and> (amount config = ''0'' \<or> amount config = []) \<longrightarrow>
        list_all (\<lambda>t. txAmount t = None \<or> txAmount t = Some MaxUint256)
          (submitted (fst (repay_main L C env w))))
   \<and> (loadConfig L OpWithdraw env = Inr config \<and> (amount config = ''0'' \<or> amount config = []) \<longrightarrow>
        list_all (\<lambda>t. txAmount t = None \<or> txAmount t = Some MaxUint256)
          (submitted (fst (withdraw_main L C env w))))
   \<and> (prologue L C OpSupply env w = ([], w, Next (config, user1, bal))
        \<and> parseUnits L (amount config) (tokenDecimals config) = Inr 0 \<longrightarrow>
        (\<exists>rest. fst (supply_main L C env w)
           = Submitted (TxApprove (tokenAddress config) user1 (lendingPoolAddress config) 0) # rest))
   \<and> (prologue L C OpBorrow env w = ([], w, Next (config, user1, bal))
        \<and> borrow_checkAccount C config user1 w = (tr1, w, Next ())
        \<and> parseUnits L (amount config) (tokenDecimals config) = Inr 0 \<longrightarrow>
        (\<exists>rest. fst (borrow_main L C env w)
           = tr1 @ Submitted (TxBorrow (lendingPoolAddress config) user1 (tokenAddress config) 0
                                (interestRateMode config) 0 user1) # rest))"
proof -
  have sentinel: "(amount config = ''0'' \<or> amount config = []) \<longrightarrow>
      repayAmountWei L config = Inr MaxUint256 \<and> withdrawAmountWei L config = Inr MaxUint256"
    by (simp add: repayAmountWei_def withdrawAmountWei_def)
  have repay: "loadConfig L OpRepay env = Inr config \<and> (amount config = ''0'' \<or> amount config = [])
      \<longrightarrow> list_all (\<lambda>t. txAmount t = None \<or> txAmount t = Some MaxUint256)
            (submitted (fst (repay_main L C env w)))"
    using repay_main_sentinel [of L env config C w] by (simp add: txsIn_def)
  have withdraw: "loadConfig L OpWithdraw env = Inr config
      \<and> (amount config = ''0'' \<or> amount config = [])
      \<longrightarrow> list_all (\<lambda>t. txAmount t = None \<or> txAmount t = Some MaxUint256)
            (submitted (fst (withdraw_main L C env w)))"
    using withdraw_main_sentinel [of L env config C w] by (simp add: txsIn_def)
  have supplies: "prologue L C OpSupply env w = ([], w, Next (config, user1, bal))
        \<and> parseUnits L (amount config) (tokenDecimals config) = Inr 0 \<longrightarrow>
        (\<exists>rest. fst (supply_main L C env w)
           = Submitted (TxApprove (tokenAddress config) user1 (lendingPoolAddress config) 0) # rest)"
    using supply_main_first_call [of L C env w config user1 bal 0] by simp
  have borrows: "prologue L C OpBorrow env w = ([], w, Next (config, user1, bal))
        \<and> borrow_checkAccount C config user1 w = (tr1, w, Next ())
        \<and> parseUnits L (amount config) (tokenDecimals config) = Inr 0 \<longrightarrow>
        (\<exists>rest. fst (borrow_main L C env w)
           = tr1 @ Submitted (TxBorrow (lendingPoolAddress config) user1 (tokenAddress config) 0
                                (interestRateMode config) 0 user1) # rest)"
    using borrow_main_first_call [of L C env w config user1 bal tr1 0] by simp
  show ?thesis
    by (intro conjI) (fact sentinel repay withdraw supplies borrows)+
qed

theorem amount_zero_convention_witness:
  "repayAmountWei demoLib
       \<lparr> network = ''sepolia'', lendingPoolAddress = ''0xPool'',
         dataProviderAddress = [], tokenName = ''TOKEN'', tokenAddress = ''0xToken'',
         tokenDecimals = Some 18, amount = ''0'', interestRateMode = Some 2,
         timeDelay = Some 86400 \<rparr> = Inr MaxUint256
   \<and> submitted (fst (repay_main demoLib demoChain sepoliaEnv (demoWorld\<lparr>variableDebtOf := 7\<rparr>)))
     = [TxApprove ''0xToken'' ''0xDeployer'' ''0xPool'' MaxUint256,
        TxRepay ''0xPool'' ''0xDeployer'' ''0xToken'' MaxUint256 (Some 2) ''0xDeployer'']
   \<and> list_all (\<lambda>t. txAmount t = None \<or> txAmount t = Some MaxUint256)
       (submitted (fst (repay_main demoLib demoChain sepoliaEnv (demoWorld\<lparr>variableDebtOf := 7\<rparr>))))
   \<and> submitted (fst (withdraw_main demoLib demoChain sepoliaEnv (demoWorld\<lparr>depositOf := 30\<rparr>)))
     = [TxWithdraw ''0xPool'' ''0xDeployer'' ''0xToken'' MaxUint256 ''0xDeployer'']
   \<and> list_all (\<lambda>t. txAmount t = None \<or> txAmount t = Some MaxUint256)
       (submitted (fst (withdraw_main demoLib demoChain sepoliaEnv (demoWorld\<lparr>depositOf := 30\<rparr>))))
   \<and> hd (fst (supply_main demoLib demoChain zeroAmountEnv activeWorld))
     = Submitted (TxApprove ''0xToken'' ''0xDeployer'' ''0xPool'' 0)
   \<and> hd (fst (borrow_main demoLib demoChain zeroAmountEnv activeWorld))
     = Submitted (TxBorrow ''0xPool'' ''0xDeployer'' ''0xToken'' 0 (Some 2) 0 ''0xDeployer'')"
proof -
  let ?rc = "\<lparr> network = ''sepolia'', lendingPoolAddress = ''0xPool'',
     dataProviderAddress = [], tokenName = ''TOKEN'', tokenAddress = ''0xToken'',
     tokenDecimals = Some 18, amount = ''0'', interestRateMode = Some 2,
     timeDelay = Some 86400 \<rparr>"
  let ?wc = "\<lparr> network = ''sepolia'', lendingPoolAddress = ''0xPool'',
     dataProviderAddress = [], tokenName = ''TOKEN'', tokenAddress = ''0xToken'',
     tokenDecimals = Some 18, amount = ''0'', interestRateMode = None,
     timeDelay = Some 86400 \<rparr>"
  have rc: "loadConfig demoLib OpRepay sepoliaEnv = Inr ?rc"
    and wc: "loadConfig demoLib OpWithdraw sepoliaEnv = Inr ?wc"
    by (simp_all add: loadConfig_sepoliaEnv amountVariable_def)
  have zero: "amount ?rc = ''0'' \<or> amount ?rc = []" "amount ?wc = ''0'' \<or> amount ?wc = []"
    by simp_all
  have full: "repayAmountWei demoLib ?rc = Inr MaxUint256"
    using amount_zero_convention [where L = demoLib and config = ?rc, THEN conjunct1] zero(1)
    by blast
  have a: "list_all (\<lambda>t. txAmount t = None \<or> txAmount t = Some MaxUint256)
       (submitted (fst (repay_main demoLib demoChain sepoliaEnv (demoWorld\<lparr>variableDebtOf := 7\<rparr>))))"
    using amount_zero_convention [where L = demoLib and env = sepoliaEnv and config = ?rc
        and C = demoChain and w = "demoWorld\<lparr>variableDebtOf := 7\<rparr>",
        THEN conjunct2, THEN conjunct1] rc zero(1)
    by blast
  have b: "list_all (\<lambda>t. txAmount t = None \<or> txAmount t = Some MaxUint256)
       (submitted (fst (withdraw_main demoLib demoChain sepoliaEnv (demoWorld\<lparr>depositOf := 30\<rparr>))))"
    using amount_zero_convention [where L = demoLib and env = sepoliaEnv and config = ?wc
        and C = demoChain and w = "demoWorld\<lparr>depositOf := 30\<rparr>",
        THEN conjunct2, THEN conjunct2, THEN conjunct1] wc zero(2)
    by blast
  have parsed: "parseUnits demoLib (amount ?wc) (tokenDecimals ?wc) = Inr 0"
    "parseUnits demoLib (amount ?rc) (tokenDecimals ?rc) = Inr 0"
    by (simp_all add: demoLib_def wholeNumber_def)
  have opened: "prologue demoLib demoChain OpSupply zeroAmountEnv activeWorld
      = ([], activeWorld, Next (?wc, ''0xDeployer'', 500 * 10 ^ 18))"
    "prologue demoLib demoChain OpBorrow zeroAmountEnv activeWorld
      = ([], activeWorld, Next (?rc, ''0xDeployer'', 500 * 10 ^ 18))"
    by (simp_all add: demo_zero_prologue activeWorld_def demoWorld_def)
  have passed: "borrow_checkAccount demoChain ?rc ''0xDeployer'' activeWorld
      = ([], activeWorld, Next ())"
    by (simp add: borrow_checkAccount_def skip_def yield_def)
  have "\<exists>rest. fst (supply_main demoLib demoChain zeroAmountEnv activeWorld)
      = Submitted (TxApprove (tokenAddress ?wc) ''0xDeployer'' (lendingPoolAddress ?wc) 0) # rest"
    using amount_zero_convention [where L = demoLib and env = zeroAmountEnv and config = ?wc
        and C = demoChain and w = activeWorld and ?user1.0 = "''0xDeployer''"
        and bal = "500 * 10 ^ 18",
        THEN conjunct2, THEN conjunct2, THEN conjunct2, THEN conjunct1] opened(1) parsed(1)
    by blast
  then have c: "hd (fst (supply_main demoLib demoChain zeroAmountEnv activeWorld))
     = Submitted (TxApprove ''0xToken'' ''0xDeployer'' ''0xPool'' 0)"
    by auto
  have "\<exists>rest. fst (borrow_main demoLib demoChain zeroAmountEnv activeWorld)
      = [] @ Submitted (TxBorrow (lendingPoolAddress ?rc) ''0xDeployer'' (tokenAddress ?rc) 0
                          (interestRateMode ?rc) 0 ''0xDeployer'') # rest"
    using amount_zero_convention [where L = demoLib and env = zeroAmountEnv and config = ?rc
        and C = demoChain and w = activeWorld and ?user1.0 = "''0xDeployer''"
        and bal = "500 * 10 ^ 18" and ?tr1.0 = "[]",
        THEN conjunct2, THEN conjunct2, THEN conjunct2, THEN conjunct2] opened(2) passed parsed(2)
    by blast
  then have d: "hd (fst (borrow_main demoLib demoChain zeroAmountEnv activeWorld))
     = Submitted (TxBorrow ''0xPool'' ''0xDeployer'' ''0xToken'' 0 (Some 2) 0 ''0xDeployer'')"
    by auto
  show ?thesis
    using full a b c d demo_repay_calls demo_withdraw_calls by (intro conjI)
qed

end
